theory Spec2Isabelle
  imports Complex_Main "HOL-Library.Stream"
begin

section \<open>Data model of \<open>SnakeGame.tsx\<close>\<close>

text \<open>
  The component keeps seven \<open>useState\<close> cells and talks to three collaborators:
  \<open>localStorage\<close>, the toast sink and \<open>Math.random\<close>. All of them are fields of one
  record that every operation takes and returns. One call of an event handler or of the
  interval callback is one atomic step on that record: the closure values a callback
  reads are the values of the latest render.
\<close>

definition GRID_SIZE :: int where
  "GRID_SIZE = 20"

text \<open>
  \<open>interface Position { x: number; y: number }\<close>. The fields are called \<open>px\<close> and
  \<open>py\<close> here, so that \<open>x\<close> and \<open>y\<close> stay free for variables. The code only ever adds
  integers to integers, so the coordinates are modelled as \<open>int\<close>.
\<close>

record Position =
  px :: int
  py :: int

text \<open>
  A JavaScript number that may be \<open>NaN\<close>: the result type of \<open>parseInt\<close>, and
  therefore the type of the \<open>highScore\<close> cell. \<open>Num\<close> carries an integer; the two
  infinities are not among these numbers.
\<close>

datatype number = NaN | Num int

datatype Variant = Default | Destructive

record Toast =
  title :: string
  description :: string
  variant :: Variant

record State =
  snake :: "Position list"
  food :: Position
  direction :: Position
  gameRunning :: bool
  score :: int
  gameOver :: bool
  highScore :: number
  localStorage :: "(string \<times> string) list"
  toasts :: "Toast list"
  mathRandom :: "real stream"

text \<open>
  \<open>localStorage\<close> is the list of \<open>setItem\<close> calls, the latest first (what was stored
  by earlier sessions is the list the component starts with); \<open>getItem\<close> returns the
  latest value of the key, \<open>null\<close> being \<open>None\<close>. \<open>toasts\<close> is the list of the
  notifications emitted so far, oldest first. \<open>mathRandom\<close> is the sequence of the values
  that the coming calls of \<open>Math.random()\<close> return, each of them in \<open>[0, 1)\<close>; they are
  taken as real numbers.
\<close>

definition getItem :: "(string \<times> string) list \<Rightarrow> string \<Rightarrow> string option" where
  "getItem store key = map_of store key"

definition setItem :: "(string \<times> string) list \<Rightarrow> string \<Rightarrow> string \<Rightarrow> (string \<times> string) list" where
  "setItem store key v = (key, v) # store"

definition INITIAL_SNAKE :: "Position list" where
  "INITIAL_SNAKE = [\<lparr>px = 10, py = 10\<rparr>]"

definition INITIAL_FOOD :: Position where
  "INITIAL_FOOD = \<lparr>px = 5, py = 5\<rparr>"

definition INITIAL_DIRECTION :: Position where
  "INITIAL_DIRECTION = \<lparr>px = 0, py = -1\<rparr>"

section \<open>Numbers and strings of the host language\<close>

text \<open>\<open>Number.prototype.toString\<close> on an integer: decimal digits, \<open>-\<close> before a negative one.\<close>

definition digitChar :: "nat \<Rightarrow> char" where
  "digitChar d = ''0123456789'' ! d"

fun natToString :: "nat \<Rightarrow> string" where
  "natToString n =
     (if n < 10 then [digitChar n]
      else natToString (n div 10) @ [digitChar (n mod 10)])"

declare natToString.simps [simp del]

definition toString :: "int \<Rightarrow> string" where
  "toString i = (if i < 0 then CHR ''-'' # natToString (nat (- i)) else natToString (nat i))"

text \<open>
  Rounding a non-negative real to the nearest double, ties to the even significand, as
  every arithmetic operation on numbers and every conversion to a number does.
  \<open>binade x\<close> is the exponent \<open>k\<close> with \<open>2 ^ k \<le> x < 2 ^ (k + 1)\<close>. The doubles of that
  range are the multiples of \<open>2 ^ (k - 52)\<close>, and the doubles below \<open>2 ^ (- 1022)\<close> are
  the multiples of \<open>2 ^ (- 1074)\<close>. A result of \<open>2 ^ 1024\<close> or more is \<open>Infinity\<close> in the
  language; the numbers of this model have no infinity, and it is left as the rounded real.
\<close>

function bitLength :: "int \<Rightarrow> nat" where
  "bitLength n = (if n \<le> 0 then 0 else Suc (bitLength (n div 2)))"
  by pat_completeness auto
termination
  by (relation "measure nat") auto

declare bitLength.simps [simp del]

definition roundHalfEven :: "real \<Rightarrow> int" where
  "roundHalfEven x =
     (let f = \<lfloor>x\<rfloor>; d = x - of_int f in
      if d < 1 / 2 then f else if 1 / 2 < d then f + 1 else if even f then f else f + 1)"

definition binade :: "real \<Rightarrow> int" where
  "binade x =
     (if 1 \<le> x then int (bitLength \<lfloor>x\<rfloor>) - 1
      else - int (bitLength (\<lceil>1 / x\<rceil> - 1)))"

definition toDouble :: "real \<Rightarrow> real" where
  "toDouble x =
     (if x = 0 then 0
      else let u = 2 powi (max (binade x) (- 1022) - 52)
           in of_int (roundHalfEven (x / u)) * u)"

text \<open>
  \<open>parseInt(string)\<close> with no radix, after ECMA-262: leading white space is dropped, one
  sign is read, a prefix \<open>0x\<close> or \<open>0X\<close> selects radix 16 (radix 10 otherwise), the longest
  run of digits of that radix is the numeral, and an empty run gives \<open>NaN\<close>. The result
  is the number nearest to the signed value of the numeral (the standard lets an engine
  read a numeral of more than 20 digits less exactly; this one reads it exactly).
  Characters are 8-bit here, so the white space is TAB, LF, VT, FF, CR, SP and NBSP.
\<close>

definition isWhiteSpace :: "char \<Rightarrow> bool" where
  "isWhiteSpace c = (of_char c \<in> {9, 10, 11, 12, 13, 32, 160 :: nat})"

definition digitValue :: "char \<Rightarrow> nat option" where
  "digitValue c =
     (let n = (of_char c :: nat) in
      if 48 \<le> n \<and> n \<le> 57 then Some (n - 48)
      else if 97 \<le> n \<and> n \<le> 122 then Some (n - 87)
      else if 65 \<le> n \<and> n \<le> 90 then Some (n - 55)
      else None)"

definition isRadixDigit :: "nat \<Rightarrow> char \<Rightarrow> bool" where
  "isRadixDigit R c = (case digitValue c of None \<Rightarrow> False | Some d \<Rightarrow> d < R)"

definition radixValue :: "nat \<Rightarrow> string \<Rightarrow> int" where
  "radixValue R Z = foldl (\<lambda>acc c. acc * int R + int (the (digitValue c))) 0 Z"

definition stripSign :: "string \<Rightarrow> int \<times> string" where
  "stripSign S =
     (case S of
        [] \<Rightarrow> (1, S)
      | c # rest \<Rightarrow>
          if c = CHR ''-'' then (- 1, rest)
          else if c = CHR ''+'' then (1, rest)
          else (1, S))"

definition stripPrefix :: "string \<Rightarrow> nat \<times> string" where
  "stripPrefix S =
     (case S of
        c # d # rest \<Rightarrow>
          if c = CHR ''0'' \<and> (d = CHR ''x'' \<or> d = CHR ''X'') then (16, rest) else (10, S)
      | _ \<Rightarrow> (10, S))"

definition parseInt :: "string \<Rightarrow> number" where
  "parseInt inputString =
     (let (sign, S1) = stripSign (dropWhile isWhiteSpace inputString);
          (R, S2) = stripPrefix S1;
          Z = takeWhile (isRadixDigit R) S2
      in if Z = [] then NaN else Num (sign * \<lfloor>toDouble (of_int (radixValue R Z))\<rfloor>))"

text \<open>\<open>a > b\<close> for an integer \<open>a\<close> and a number \<open>b\<close>: every comparison with \<open>NaN\<close> is false.\<close>

fun greater :: "int \<Rightarrow> number \<Rightarrow> bool" where
  "greater a NaN = False"
| "greater a (Num b) = (a > b)"

section \<open>The component\<close>

text \<open>
  The initialiser of the \<open>highScore\<close> cell:
  \<open>const saved = localStorage.getItem('snakeHighScore'); return saved ? parseInt(saved) : 0\<close>.
  \<open>null\<close> and the empty string are the falsy values of \<open>saved\<close>.
\<close>

definition loadHighScore :: "(string \<times> string) list \<Rightarrow> number" where
  "loadHighScore store =
     (case getItem store ''snakeHighScore'' of
        None \<Rightarrow> Num 0
      | Some saved \<Rightarrow> if saved = [] then Num 0 else parseInt saved)"

definition initialState :: "(string \<times> string) list \<Rightarrow> real stream \<Rightarrow> State" where
  "initialState store rs =
     \<lparr>snake = INITIAL_SNAKE, food = INITIAL_FOOD, direction = INITIAL_DIRECTION,
      gameRunning = False, score = 0, gameOver = False,
      highScore = loadHighScore store,
      localStorage = store, toasts = [], mathRandom = rs\<rparr>"

text \<open>
  \<open>snake.some(segment => segment.x === p.x && segment.y === p.y)\<close>
\<close>

definition occupies :: "Position list \<Rightarrow> Position \<Rightarrow> bool" where
  "occupies segments p = list_ex (\<lambda>segment. px segment = px p \<and> py segment = py p) segments"

text \<open>
  \<open>generateFood\<close>: a \<open>do ... while\<close> loop with no bound on its iterations, so the model
  is a partial function and \<open>None\<close> is the loop that never ends. Each iteration takes two
  values of \<open>Math.random()\<close>, first for \<open>x\<close>, then for \<open>y\<close>; the product with \<open>GRID_SIZE\<close>
  is a number, so it is rounded to a double before \<open>Math.floor\<close>. The list of segments is
  the \<open>snake\<close> of the closure, which the caller passes in.
\<close>

definition randomCell :: "real stream \<Rightarrow> Position" where
  "randomCell rs =
     \<lparr>px = \<lfloor>toDouble (shd rs * real_of_int GRID_SIZE)\<rfloor>,
      py = \<lfloor>toDouble (shd (stl rs) * real_of_int GRID_SIZE)\<rfloor>\<rparr>"

partial_function (option) generateFood :: "Position list \<Rightarrow> real stream \<Rightarrow> (Position \<times> real stream) option" where
  "generateFood segments rs =
     (let newFood = randomCell rs in
      if occupies segments newFood then generateFood segments (stl (stl rs))
      else Some (newFood, stl (stl rs)))"

declare generateFood.simps [code]

definition resetGame :: "State \<Rightarrow> State" where
  "resetGame s =
     s\<lparr>snake := INITIAL_SNAKE, food := INITIAL_FOOD, direction := INITIAL_DIRECTION,
       score := 0, gameOver := False, gameRunning := False\<rparr>"

definition startGame :: "State \<Rightarrow> State" where
  "startGame s = (if gameOver s then resetGame s else s)\<lparr>gameRunning := True\<rparr>"

definition pauseGame :: "State \<Rightarrow> State" where
  "pauseGame s = s\<lparr>gameRunning := False\<rparr>"

definition toast :: "Toast \<Rightarrow> State \<Rightarrow> State" where
  "toast t s = s\<lparr>toasts := toasts s @ [t]\<rparr>"

text \<open>The terminal branch shared by the wall check and the self check.\<close>

definition endGame :: "string \<Rightarrow> State \<Rightarrow> State" where
  "endGame what s =
     toast \<lparr>title = ''Game Over!'',
            description = what @ '' Final score: '' @ toString (score s),
            variant = Destructive\<rparr>
       (s\<lparr>gameOver := True, gameRunning := False\<rparr>)"

text \<open>
  The updater passed to \<open>setScore\<close> in the food branch, with its writes. \<open>highScore\<close> is
  the value of the closure, which no step of the tick before it changes.
\<close>

definition addScore :: "State \<Rightarrow> State" where
  "addScore s =
     (let newScore = score s + 10;
          s1 = (if greater newScore (highScore s)
                then toast \<lparr>title = ''New High Score!'',
                            description = ''Amazing! New record: '' @ toString newScore,
                            variant = Default\<rparr>
                       (s\<lparr>highScore := Num newScore,
                          localStorage := setItem (localStorage s) ''snakeHighScore'' (toString newScore)\<rparr>)
                else s)
      in s1\<lparr>score := newScore\<rparr>)"

definition newHead :: "Position \<Rightarrow> Position \<Rightarrow> Position" where
  "newHead h d = \<lparr>px = px h + px d, py = py h + py d\<rparr>"

text \<open>The wall check of \<open>moveSnake\<close>.\<close>

definition hitsWall :: "Position \<Rightarrow> bool" where
  "hitsWall head = (px head < 0 \<or> px head \<ge> GRID_SIZE \<or> py head < 0 \<or> py head \<ge> GRID_SIZE)"

text \<open>
  \<open>moveSnake\<close>, one tick: the guard, then the updater passed to \<open>setSnake\<close> with the
  setters it calls. \<open>generateFood()\<close> is called with the \<open>snake\<close> of the closure, the list
  before this tick; when its loop does not end, the tick does not return. The updater
  passed to \<open>setScore\<close> is queued: React calls it when it processes the update, after the
  updater of \<open>setSnake\<close> has returned, so its toast and its write come after the
  \<open>Yummy!\<close> toast. On an empty list \<open>newSnake[0]\<close> is \<open>undefined\<close>, both
  coordinates of \<open>head\<close> are \<open>NaN\<close>, every comparison is false, and the \<open>pop\<close> removes the
  cell that \<open>unshift\<close> added: the state stays as it is.
\<close>

definition moveSnake :: "State \<Rightarrow> State option" where
  "moveSnake s =
     (if \<not> gameRunning s \<or> gameOver s then Some s
      else case snake s of
        [] \<Rightarrow> Some s
      | h # _ \<Rightarrow>
          let head = newHead h (direction s) in
          if hitsWall head
          then Some (endGame ''You hit the wall!'' s)
          else if occupies (snake s) head
          then Some (endGame ''You hit yourself!'' s)
          else
            let newSnake = head # snake s in
            if px head = px (food s) \<and> py head = py (food s)
            then
              (case generateFood (snake s) (mathRandom s) of
                 None \<Rightarrow> None
               | Some (newFood, rs) \<Rightarrow>
                   Some (addScore
                          (toast \<lparr>title = ''Yummy!'', description = ''+10 points'', variant = Default\<rparr>
                            (s\<lparr>food := newFood, mathRandom := rs, snake := newSnake\<rparr>))))
            else Some (s\<lparr>snake := butlast newSnake\<rparr>))"

text \<open>\<open>handleKeyPress\<close>, on the \<open>key\<close> of the event.\<close>

definition handleKeyPress :: "string \<Rightarrow> State \<Rightarrow> State" where
  "handleKeyPress key s =
     (if \<not> gameRunning s then s
      else if key = ''ArrowUp''
        then (if py (direction s) = 0 then s\<lparr>direction := \<lparr>px = 0, py = -1\<rparr>\<rparr> else s)
      else if key = ''ArrowDown''
        then (if py (direction s) = 0 then s\<lparr>direction := \<lparr>px = 0, py = 1\<rparr>\<rparr> else s)
      else if key = ''ArrowLeft''
        then (if px (direction s) = 0 then s\<lparr>direction := \<lparr>px = -1, py = 0\<rparr>\<rparr> else s)
      else if key = ''ArrowRight''
        then (if px (direction s) = 0 then s\<lparr>direction := \<lparr>px = 1, py = 0\<rparr>\<rparr> else s)
      else if key = '' '' then pauseGame s
      else s)"

text \<open>The operations a session is made of, and a run of them.\<close>

datatype Operation = Tick | Start | Pause | Reset | Key string

fun step :: "Operation \<Rightarrow> State \<Rightarrow> State option" where
  "step Tick s = moveSnake s"
| "step Start s = Some (startGame s)"
| "step Pause s = Some (pauseGame s)"
| "step Reset s = Some (resetGame s)"
| "step (Key k) s = Some (handleKeyPress k s)"

fun run :: "Operation list \<Rightarrow> State \<Rightarrow> State option" where
  "run [] s = Some s"
| "run (op # ops) s = (case step op s of None \<Rightarrow> None | Some s' \<Rightarrow> run ops s')"

section \<open>Auxiliary facts\<close>

subsection \<open>Cells and the food loop\<close>

lemma Position_eq_iff: "(p :: Position) = q \<longleftrightarrow> px p = px q \<and> py p = py q"
  by (cases p, cases q) simp

lemma occupies_iff: "occupies segments p \<longleftrightarrow> p \<in> set segments"
proof
  assume "occupies segments p"
  then obtain segment where "segment \<in> set segments" "px segment = px p" "py segment = py p"
    by (auto simp: occupies_def list_ex_iff)
  moreover from this have "segment = p" by (simp add: Position_eq_iff)
  ultimately show "p \<in> set segments" by simp
next
  assume "p \<in> set segments"
  then show "occupies segments p" by (auto simp: occupies_def list_ex_iff)
qed


lemma generateFood_sound:
  assumes "generateFood segments rs = Some r"
  shows "\<not> occupies segments (fst r)"
  using assms
proof (rule generateFood.raw_induct [where P = "\<lambda>segs rs r. \<not> occupies segs (fst r)", rotated 1])
  fix gen segs rs r
  assume IH: "\<And>segs rs r. gen segs rs = Some r \<Longrightarrow> \<not> occupies segs (fst r)"
    and body: "(let newFood = randomCell rs in
          if occupies segs newFood then gen segs (stl (stl rs))
          else Some (newFood, stl (stl rs))) = Some r"
  show "\<not> occupies segs (fst r)"
  proof (cases "occupies segs (randomCell rs)")
    case True
    with body have "gen segs (stl (stl rs)) = Some r" by (simp add: Let_def)
    then show ?thesis by (rule IH)
  next
    case False
    with body have "r = (randomCell rs, stl (stl rs))" by (simp add: Let_def)
    with False show ?thesis by simp
  qed
qed

lemma generateFood_terminates:
  "\<not> occupies segments (randomCell (sdrop (2 * k) rs)) \<Longrightarrow> \<exists>r. generateFood segments rs = Some r"
proof (induction k arbitrary: rs)
  case 0
  then show ?case by (subst generateFood.simps) (simp add: Let_def)
next
  case (Suc k)
  have "\<not> occupies segments (randomCell (sdrop (2 * k) (stl (stl rs))))"
    using Suc.prems by simp
  from Suc.IH [OF this] obtain r where "generateFood segments (stl (stl rs)) = Some r" ..
  then show ?case by (subst generateFood.simps) (simp add: Let_def)
qed

subsection \<open>Rounding to a double\<close>

text \<open>An integer below \<open>2\<^sup>5\<^sup>3\<close> is a double.\<close>

lemma bitLength_le: "n < 2 ^ m \<Longrightarrow> bitLength n \<le> m"
proof (induction m arbitrary: n)
  case 0
  then show ?case by (simp add: bitLength.simps [of n])
next
  case (Suc m)
  show ?case
  proof (cases "n \<le> 0")
    case True
    then show ?thesis by (simp add: bitLength.simps [of n])
  next
    case False
    from Suc.prems have "n div 2 < 2 ^ m" by simp
    from Suc.IH [OF this] False show ?thesis by (simp add: bitLength.simps [of n])
  qed
qed

lemma bitLength_pos: "0 < n \<Longrightarrow> 0 < bitLength n"
  by (simp add: bitLength.simps [of n])

lemma roundHalfEven_of_int: "roundHalfEven (of_int m) = m"
  by (simp add: roundHalfEven_def)

lemma toDouble_of_int:
  assumes "0 \<le> n" and "n < 2 ^ 53"
  shows "toDouble (of_int n) = of_int n"
proof (cases "n = 0")
  case True
  then show ?thesis by (simp add: toDouble_def)
next
  case False
  with assms(1) have pos: "0 < n" by simp
  define k where "k = int (bitLength n) - 1"
  from bitLength_le [OF assms(2)] bitLength_pos [OF pos] have k: "0 \<le> k" "k \<le> 52"
    by (simp_all add: k_def)
  from pos have b: "binade (of_int n) = k"
    by (simp add: binade_def k_def)
  define j where "j = nat (52 - k)"
  from k have u: "(2::real) powi (max k (- 1022) - 52) = 1 / 2 ^ j"
    by (simp add: j_def power_int_def max_def field_simps)
  have "of_int n / (1 / 2 ^ j) = (of_int (n * 2 ^ j) :: real)"
    by simp
  then have "roundHalfEven (of_int n / (1 / 2 ^ j)) = n * 2 ^ j"
    by (simp only: roundHalfEven_of_int)
  with False pos show ?thesis
    by (simp add: toDouble_def b u Let_def)
qed

lemma toDouble_zero: "toDouble 0 = 0"
  by (simp add: toDouble_def)

text \<open>
  Two roundings that the exact value would not give: the double nearest to 0.7, times 20,
  is 14 (the exact product is below 14), and the numeral \<open>9007199254740993\<close>, which is
  \<open>2 ^ 53 + 1\<close>, is read as \<open>2 ^ 53\<close>.
\<close>

lemma toDouble_product_example:
  "\<lfloor>toDouble ((6305039478318694 / 9007199254740992) * real_of_int GRID_SIZE)\<rfloor> = 14
   \<and> \<lfloor>(6305039478318694 / 9007199254740992) * real_of_int GRID_SIZE\<rfloor> = 13"
  by code_simp

lemma parseInt_rounding_example: "parseInt ''9007199254740993'' = Num 9007199254740992"
  by code_simp

subsection \<open>Printing and reading integers\<close>

lemma digit_cases: "d < 10 \<Longrightarrow> d \<in> {0, 1, 2, 3, 4, 5, 6, 7, 8, 9 :: nat}"
  by auto

lemma digitValue_digitChar: "d < 10 \<Longrightarrow> digitValue (digitChar d) = Some d"
  by (drule digit_cases) (auto simp: digitChar_def digitValue_def)

lemma digitChar_plain:
  "d < 10 \<Longrightarrow> \<not> isWhiteSpace (digitChar d) \<and> digitChar d \<noteq> CHR ''-'' \<and> digitChar d \<noteq> CHR ''+''
     \<and> digitChar d \<noteq> CHR ''x'' \<and> digitChar d \<noteq> CHR ''X''"
  by (drule digit_cases) (auto simp: digitChar_def isWhiteSpace_def)

lemma natToString_digits: "c \<in> set (natToString n) \<Longrightarrow> \<exists>d<10. c = digitChar d"
proof (induction n rule: natToString.induct)
  case (1 n)
  show ?case
  proof (cases "n < 10")
    case True
    with "1.prems" show ?thesis by (auto simp: natToString.simps [of n])
  next
    case False
    with "1.prems" have "c \<in> set (natToString (n div 10)) \<or> c = digitChar (n mod 10)"
      by (auto simp: natToString.simps [of n])
    then show ?thesis
    proof
      assume "c \<in> set (natToString (n div 10))"
      with False "1.IH" show ?thesis by simp
    next
      assume "c = digitChar (n mod 10)"
      moreover have "n mod 10 < 10" by simp
      ultimately show ?thesis by blast
    qed
  qed
qed

lemma natToString_nonempty: "natToString n \<noteq> []"
  by (subst natToString.simps) simp

lemma radixValue_snoc:
  "radixValue R (Z @ [c]) = radixValue R Z * int R + int (the (digitValue c))"
  by (simp add: radixValue_def)

lemma radixValue_natToString: "radixValue 10 (natToString n) = int n"
proof (induction n rule: natToString.induct)
  case (1 n)
  show ?case
  proof (cases "n < 10")
    case True
    then show ?thesis
      by (simp add: natToString.simps [of n] radixValue_def digitValue_digitChar)
  next
    case False
    with "1.IH" have "radixValue 10 (natToString (n div 10)) = int (n div 10)" by simp
    with False show ?thesis
      by (simp add: natToString.simps [of n] radixValue_snoc digitValue_digitChar zdiv_int zmod_int)
  qed
qed

lemma takeWhile_natToString: "takeWhile (isRadixDigit 10) (natToString n) = natToString n"
proof -
  have "isRadixDigit 10 c" if "c \<in> set (natToString n)" for c
  proof -
    from natToString_digits [OF that] obtain d where "d < 10" "c = digitChar d" by blast
    then show ?thesis by (simp add: isRadixDigit_def digitValue_digitChar)
  qed
  then show ?thesis by simp
qed

lemma stripPrefix_natToString: "stripPrefix (natToString n) = (10, natToString n)"
proof (cases "natToString n")
  case Nil
  then show ?thesis by (simp add: stripPrefix_def)
next
  case (Cons c rest)
  show ?thesis
  proof (cases rest)
    case Nil
    with Cons show ?thesis by (simp add: stripPrefix_def)
  next
    case (Cons d rest')
    with \<open>natToString n = c # rest\<close> have "d \<in> set (natToString n)" by simp
    from natToString_digits [OF this] obtain k where "k < 10" "d = digitChar k" by blast
    with digitChar_plain [of k] have "d \<noteq> CHR ''x''" "d \<noteq> CHR ''X''" by simp_all
    with Cons \<open>natToString n = c # rest\<close> show ?thesis by (simp add: stripPrefix_def)
  qed
qed

lemma hd_natToString: "\<exists>d rest. d < 10 \<and> natToString n = digitChar d # rest"
proof (cases "natToString n")
  case Nil
  with natToString_nonempty show ?thesis by simp
next
  case (Cons c rest)
  then have "c \<in> set (natToString n)" by simp
  from natToString_digits [OF this] Cons show ?thesis by auto
qed

text \<open>Reading back what \<open>toString\<close> printed, for an integer that is a double.\<close>

lemma parseInt_natToString:
  assumes "int n < 2 ^ 53"
  shows "parseInt (natToString n) = Num (int n)"
proof -
  from hd_natToString obtain d rest where d: "d < 10" "natToString n = digitChar d # rest" by blast
  from digitChar_plain [OF d(1)] d(2)
  have "dropWhile isWhiteSpace (natToString n) = natToString n"
    and "stripSign (natToString n) = (1, natToString n)"
    by (simp_all add: stripSign_def)
  moreover from toDouble_of_int [OF _ assms] have "\<lfloor>toDouble (of_int (int n))\<rfloor> = int n"
    by simp
  ultimately show ?thesis
    by (simp add: parseInt_def stripPrefix_natToString takeWhile_natToString
        natToString_nonempty radixValue_natToString)
qed

lemma parseInt_toString:
  assumes "\<bar>i\<bar> < 2 ^ 53"
  shows "parseInt (toString i) = Num i"
proof (cases "i < 0")
  case False
  with assms have "int (nat i) < 2 ^ 53" by simp
  from parseInt_natToString [OF this] False show ?thesis by (simp add: toString_def)
next
  case True
  with assms have small: "int (nat (- i)) < 2 ^ 53" by simp
  have "\<not> isWhiteSpace (CHR ''-'')" by (simp add: isWhiteSpace_def)
  then have "stripSign (dropWhile isWhiteSpace (toString i)) = (- 1, natToString (nat (- i)))"
    using True by (simp add: toString_def stripSign_def)
  moreover from toDouble_of_int [OF _ small] have "\<lfloor>toDouble (of_int (int (nat (- i))))\<rfloor> = int (nat (- i))"
    by simp
  ultimately show ?thesis
    using True
    by (simp add: parseInt_def stripPrefix_natToString takeWhile_natToString
        natToString_nonempty radixValue_natToString)
qed

lemma toString_nonempty: "toString i \<noteq> []"
  by (simp add: toString_def natToString_nonempty)

subsection \<open>The outcomes of a tick\<close>

lemma moveSnake_idle: "\<not> gameRunning s \<or> gameOver s \<Longrightarrow> moveSnake s = Some s"
  by (auto simp: moveSnake_def)

lemma moveSnake_wall:
  "gameRunning s \<Longrightarrow> \<not> gameOver s \<Longrightarrow> snake s = h # t \<Longrightarrow> hitsWall (newHead h (direction s)) \<Longrightarrow>
   moveSnake s = Some (endGame ''You hit the wall!'' s)"
  by (simp add: moveSnake_def)

lemma moveSnake_self:
  "gameRunning s \<Longrightarrow> \<not> gameOver s \<Longrightarrow> snake s = h # t \<Longrightarrow> \<not> hitsWall (newHead h (direction s)) \<Longrightarrow>
   newHead h (direction s) \<in> set (snake s) \<Longrightarrow>
   moveSnake s = Some (endGame ''You hit yourself!'' s)"
  by (simp add: moveSnake_def occupies_iff)

lemma moveSnake_eat:
  assumes "gameRunning s" and "\<not> gameOver s" and "snake s = h # t"
    and "\<not> hitsWall (newHead h (direction s))"
    and "newHead h (direction s) \<notin> set (snake s)"
    and "newHead h (direction s) = food s"
    and "generateFood (snake s) (mathRandom s) = Some (newFood, rs)"
  shows "moveSnake s =
     Some (addScore (toast \<lparr>title = ''Yummy!'', description = ''+10 points'', variant = Default\<rparr>
                (s\<lparr>food := newFood, mathRandom := rs, snake := newHead h (direction s) # snake s\<rparr>)))"
proof -
  have free: "\<not> occupies (h # t) (newHead h (direction s))"
    using assms(5) unfolding assms(3) by (simp only: occupies_iff not_False_eq_True)
  have eats: "px (newHead h (direction s)) = px (food s) \<and> py (newHead h (direction s)) = py (food s)"
    by (simp only: assms(6) simp_thms)
  have gen: "generateFood (h # t) (mathRandom s) = Some (newFood, rs)"
    using assms(7) unfolding assms(3) .
  show ?thesis
    unfolding moveSnake_def Let_def
    by (simp only: assms(1-4) gen free eats list.case option.case prod.case simp_thms if_True if_False)
qed

lemma moveSnake_move:
  assumes "gameRunning s" and "\<not> gameOver s" and "snake s = h # t"
    and "\<not> hitsWall (newHead h (direction s))"
    and "newHead h (direction s) \<notin> set (snake s)"
    and "newHead h (direction s) \<noteq> food s"
  shows "moveSnake s = Some (s\<lparr>snake := butlast (newHead h (direction s) # snake s)\<rparr>)"
proof -
  have free: "\<not> occupies (h # t) (newHead h (direction s))"
    using assms(5) unfolding assms(3) by (simp only: occupies_iff not_False_eq_True)
  have misses: "\<not> (px (newHead h (direction s)) = px (food s) \<and> py (newHead h (direction s)) = py (food s))"
    using assms(6) by (simp only: Position_eq_iff not_False_eq_True)
  show ?thesis
    unfolding moveSnake_def Let_def
    by (simp only: assms(1-4) free misses list.case simp_thms if_True if_False)
qed

lemma endGame_fields:
  "gameOver (endGame what s)" "\<not> gameRunning (endGame what s)"
  "snake (endGame what s) = snake s" "food (endGame what s) = food s"
  "score (endGame what s) = score s" "highScore (endGame what s) = highScore s"
  "direction (endGame what s) = direction s" "localStorage (endGame what s) = localStorage s"
  by (simp_all add: endGame_def toast_def)

lemma addScore_fields:
  "score (addScore s) = score s + 10"
  "snake (addScore s) = snake s" "food (addScore s) = food s"
  "gameOver (addScore s) = gameOver s" "gameRunning (addScore s) = gameRunning s"
  "direction (addScore s) = direction s"
  by (simp_all add: addScore_def toast_def Let_def)

lemma addScore_highScore:
  "highScore (addScore s) = (if greater (score s + 10) (highScore s) then Num (score s + 10) else highScore s)"
  "localStorage (addScore s) =
     (if greater (score s + 10) (highScore s)
      then (''snakeHighScore'', toString (score s + 10)) # localStorage s else localStorage s)"
  by (simp_all add: addScore_def toast_def Let_def setItem_def)

text \<open>Every result of a tick is one of five.\<close>

lemma moveSnake_result:
  assumes "moveSnake s = Some s'"
  shows "s' = s
    \<or> s' = endGame ''You hit the wall!'' s
    \<or> s' = endGame ''You hit yourself!'' s
    \<or> (\<exists>h t newFood rs. snake s = h # t \<and> newHead h (direction s) \<notin> set (snake s)
          \<and> s' = addScore (toast \<lparr>title = ''Yummy!'', description = ''+10 points'', variant = Default\<rparr>
                (s\<lparr>food := newFood, mathRandom := rs, snake := newHead h (direction s) # snake s\<rparr>)))
    \<or> (\<exists>h t. snake s = h # t \<and> newHead h (direction s) \<notin> set (snake s)
          \<and> s' = s\<lparr>snake := butlast (newHead h (direction s) # snake s)\<rparr>)"
proof (cases "\<not> gameRunning s \<or> gameOver s")
  case True
  with assms show ?thesis by (simp add: moveSnake_idle)
next
  case False
  then have run: "gameRunning s" and live: "\<not> gameOver s" by simp_all
  show ?thesis
  proof (cases "snake s")
    case Nil
    with assms run live show ?thesis by (simp add: moveSnake_def)
  next
    case (Cons h t)
    show ?thesis
    proof (cases "hitsWall (newHead h (direction s))")
      case True
      from moveSnake_wall [OF run live Cons True] assms show ?thesis by simp
    next
      case inside: False
      show ?thesis
      proof (cases "newHead h (direction s) \<in> set (snake s)")
        case True
        from moveSnake_self [OF run live Cons inside True] assms show ?thesis by simp
      next
        case free: False
        show ?thesis
        proof (cases "newHead h (direction s) = food s")
          case False
          from moveSnake_move [OF run live Cons inside free False] assms free Cons
          show ?thesis by simp
        next
          case eats: True
          show ?thesis
          proof (cases "generateFood (snake s) (mathRandom s)")
            case None
            have "\<not> occupies (h # t) (newHead h (direction s))"
              using free unfolding Cons by (simp only: occupies_iff not_False_eq_True)
            moreover have "px (newHead h (direction s)) = px (food s) \<and> py (newHead h (direction s)) = py (food s)"
              by (simp only: eats simp_thms)
            moreover have "generateFood (h # t) (mathRandom s) = None"
              using None unfolding Cons .
            ultimately have "moveSnake s = None"
              unfolding moveSnake_def Let_def
              by (simp only: run live Cons inside list.case option.case simp_thms if_True if_False)
            with assms show ?thesis by simp
          next
            case (Some r)
            obtain newFood rs where "r = (newFood, rs)" by (cases r)
            with Some have "generateFood (snake s) (mathRandom s) = Some (newFood, rs)" by simp
            from moveSnake_eat [OF run live Cons inside free eats this] assms free Cons
            show ?thesis by auto
          qed
        qed
      qed
    qed
  qed
qed

lemma toast_fields:
  "snake (toast t s) = snake s" "food (toast t s) = food s" "score (toast t s) = score s"
  "gameOver (toast t s) = gameOver s" "gameRunning (toast t s) = gameRunning s"
  "highScore (toast t s) = highScore s" "localStorage (toast t s) = localStorage s"
  "direction (toast t s) = direction s"
  by (simp_all add: toast_def)

text \<open>A non-terminal tick returns: without food at once, with food when the loop ends.\<close>

lemma moveSnake_eat_fair:
  assumes "gameRunning s" and "\<not> gameOver s" and "snake s = h # t"
    and "\<not> hitsWall (newHead h (direction s))"
    and "newHead h (direction s) \<notin> set (snake s)"
    and "newHead h (direction s) = food s"
    and "\<not> occupies (snake s) (randomCell (sdrop (2 * k) (mathRandom s)))"
  shows "\<exists>newFood rs. moveSnake s =
     Some (addScore (toast \<lparr>title = ''Yummy!'', description = ''+10 points'', variant = Default\<rparr>
                (s\<lparr>food := newFood, mathRandom := rs, snake := newHead h (direction s) # snake s\<rparr>)))"
proof -
  from generateFood_terminates [OF assms(7)]
  obtain r where "generateFood (snake s) (mathRandom s) = Some r" ..
  moreover obtain newFood rs where "r = (newFood, rs)" by (cases r)
  ultimately have "generateFood (snake s) (mathRandom s) = Some (newFood, rs)" by simp
  from moveSnake_eat [OF assms(1-6) this] show ?thesis by blast
qed

text \<open>The score, the high score and the store after a tick that eats.\<close>

lemma moveSnake_eat_score:
  assumes "gameRunning s" and "\<not> gameOver s" and "snake s = h # t"
    and "\<not> hitsWall (newHead h (direction s))"
    and "newHead h (direction s) \<notin> set (snake s)"
    and "newHead h (direction s) = food s"
    and "\<not> occupies (snake s) (randomCell (sdrop (2 * k) (mathRandom s)))"
  shows "\<exists>s'. moveSnake s = Some s' \<and> score s' = score s + 10
      \<and> highScore s' = (if greater (score s + 10) (highScore s) then Num (score s + 10) else highScore s)
      \<and> localStorage s' =
          (if greater (score s + 10) (highScore s)
           then (''snakeHighScore'', toString (score s + 10)) # localStorage s else localStorage s)"
proof -
  from moveSnake_eat_fair [OF assms]
  obtain newFood rs where "moveSnake s =
     Some (addScore (toast \<lparr>title = ''Yummy!'', description = ''+10 points'', variant = Default\<rparr>
                (s\<lparr>food := newFood, mathRandom := rs, snake := newHead h (direction s) # snake s\<rparr>)))"
    by blast
  then show ?thesis
    by (simp add: toast_fields addScore_fields addScore_highScore)
qed

lemma inside_iff:
  "\<not> hitsWall p \<longleftrightarrow> 0 \<le> px p \<and> px p < GRID_SIZE \<and> 0 \<le> py p \<and> py p < GRID_SIZE"
  by (auto simp: hitsWall_def)

lemma moveSnake_distinct:
  assumes "distinct (snake s)" and "moveSnake s = Some s'"
  shows "distinct (snake s')"
proof -
  from moveSnake_result [OF assms(2)]
  consider "s' = s"
    | what where "s' = endGame what s"
    | h t newFood rs where "snake s = h # t" "newHead h (direction s) \<notin> set (snake s)"
        "s' = addScore (toast \<lparr>title = ''Yummy!'', description = ''+10 points'', variant = Default\<rparr>
                (s\<lparr>food := newFood, mathRandom := rs, snake := newHead h (direction s) # snake s\<rparr>))"
    | h t where "snake s = h # t" "newHead h (direction s) \<notin> set (snake s)"
        "s' = s\<lparr>snake := butlast (newHead h (direction s) # snake s)\<rparr>"
    by blast
  then show ?thesis
  proof cases
    case 1
    with assms(1) show ?thesis by simp
  next
    case 2
    with assms(1) show ?thesis by (simp add: endGame_fields)
  next
    case 3
    with assms(1) show ?thesis by (simp add: toast_fields addScore_fields)
  next
    case 4
    from assms(1) 4(2) have "distinct (newHead h (direction s) # snake s)" by simp
    then have "distinct (butlast (newHead h (direction s) # snake s))" by (rule distinct_butlast)
    with 4(3) show ?thesis by simp
  qed
qed

lemma moveSnake_returns:
  assumes "\<not> occupies (snake s) (randomCell (sdrop (2 * k) (mathRandom s)))"
  shows "\<exists>s'. moveSnake s = Some s'"
proof -
  from generateFood_terminates [OF assms]
  obtain r where "generateFood (snake s) (mathRandom s) = Some r" ..
  then show ?thesis
    by (cases r) (simp add: moveSnake_def Let_def split: list.split)
qed

text \<open>The invariant of the two flags, operation by operation.\<close>

lemma moveSnake_flags:
  assumes "gameOver s \<longrightarrow> \<not> gameRunning s" and "moveSnake s = Some s'"
  shows "gameOver s' \<longrightarrow> \<not> gameRunning s'"
proof -
  from moveSnake_result [OF assms(2)]
  consider "s' = s"
    | what where "s' = endGame what s"
    | h newFood rs where
        "s' = addScore (toast \<lparr>title = ''Yummy!'', description = ''+10 points'', variant = Default\<rparr>
                (s\<lparr>food := newFood, mathRandom := rs, snake := newHead h (direction s) # snake s\<rparr>))"
    | h where "s' = s\<lparr>snake := butlast (newHead h (direction s) # snake s)\<rparr>"
    by blast
  then show ?thesis
  proof cases
    case 1
    with assms(1) show ?thesis by simp
  next
    case 2
    then show ?thesis by (simp add: endGame_fields)
  next
    case 3
    with assms(1) show ?thesis by (simp add: toast_fields addScore_fields)
  next
    case 4
    with assms(1) show ?thesis by simp
  qed
qed

lemma handleKeyPress_flags:
  assumes "gameOver s \<longrightarrow> \<not> gameRunning s"
  shows "gameOver (handleKeyPress key s) \<longrightarrow> \<not> gameRunning (handleKeyPress key s)"
  using assms by (auto simp: handleKeyPress_def pauseGame_def)

lemma step_flags:
  assumes "gameOver s \<longrightarrow> \<not> gameRunning s" and "step op s = Some s'"
  shows "gameOver s' \<longrightarrow> \<not> gameRunning s'"
proof (cases op)
  case Tick
  with assms(2) have "moveSnake s = Some s'" by simp
  from moveSnake_flags [OF assms(1) this] show ?thesis .
next
  case Start
  with assms(2) have "s' = startGame s" by simp
  then show ?thesis by (simp add: startGame_def resetGame_def)
next
  case Pause
  with assms(2) have "s' = pauseGame s" by simp
  then show ?thesis by (simp add: pauseGame_def)
next
  case Reset
  with assms(2) have "s' = resetGame s" by simp
  then show ?thesis by (simp add: resetGame_def)
next
  case (Key k)
  with assms(2) have "s' = handleKeyPress k s" by simp
  with handleKeyPress_flags [OF assms(1)] show ?thesis by simp
qed

lemma run_flags:
  assumes "gameOver s \<longrightarrow> \<not> gameRunning s" and "run ops s = Some s'"
  shows "gameOver s' \<longrightarrow> \<not> gameRunning s'"
  using assms
proof (induction ops arbitrary: s)
  case Nil
  then show ?case by simp
next
  case (Cons op ops)
  from Cons.prems(2) obtain s1 where s1: "step op s = Some s1" and rest: "run ops s1 = Some s'"
    by (auto split: option.splits)
  from step_flags [OF Cons.prems(1) s1] have "gameOver s1 \<longrightarrow> \<not> gameRunning s1" .
  from Cons.IH [OF this rest] show ?case .
qed

text \<open>The high score only moves up.\<close>

lemma addScore_up:
  "highScore (addScore s) = highScore s
   \<or> (\<exists>a b. highScore s = Num a \<and> highScore (addScore s) = Num b \<and> a < b)"
  by (cases "highScore s") (simp_all add: addScore_highScore)

lemma moveSnake_up:
  assumes "moveSnake s = Some s'"
  shows "highScore s' = highScore s
   \<or> (\<exists>a b. highScore s = Num a \<and> highScore s' = Num b \<and> a < b)"
proof -
  from moveSnake_result [OF assms]
  consider "s' = s"
    | what where "s' = endGame what s"
    | h newFood rs where
        "s' = addScore (toast \<lparr>title = ''Yummy!'', description = ''+10 points'', variant = Default\<rparr>
                (s\<lparr>food := newFood, mathRandom := rs, snake := newHead h (direction s) # snake s\<rparr>))"
    | h where "s' = s\<lparr>snake := butlast (newHead h (direction s) # snake s)\<rparr>"
    by blast
  then show ?thesis
  proof cases
    case 1
    then show ?thesis by simp
  next
    case 2
    then show ?thesis by (simp add: endGame_fields)
  next
    case 3
    from addScore_up
      [of "toast \<lparr>title = ''Yummy!'', description = ''+10 points'', variant = Default\<rparr>
             (s\<lparr>food := newFood, mathRandom := rs, snake := newHead h (direction s) # snake s\<rparr>)"]
    show ?thesis unfolding 3 by (simp add: toast_fields)
  next
    case 4
    then show ?thesis by simp
  qed
qed

lemma step_up:
  assumes "step op s = Some s'"
  shows "highScore s' = highScore s
   \<or> (\<exists>a b. highScore s = Num a \<and> highScore s' = Num b \<and> a < b)"
proof (cases op)
  case Tick
  with assms have "moveSnake s = Some s'" by simp
  then show ?thesis by (rule moveSnake_up)
next
  case Start
  with assms have "s' = startGame s" by simp
  then show ?thesis by (simp add: startGame_def resetGame_def)
next
  case Pause
  with assms have "s' = pauseGame s" by simp
  then show ?thesis by (simp add: pauseGame_def)
next
  case Reset
  with assms have "s' = resetGame s" by simp
  then show ?thesis by (simp add: resetGame_def)
next
  case (Key k)
  with assms have "s' = handleKeyPress k s" by simp
  then show ?thesis by (simp add: handleKeyPress_def pauseGame_def)
qed

lemma run_up:
  assumes "run ops s = Some s'"
  shows "highScore s' = highScore s
   \<or> (\<exists>a b. highScore s = Num a \<and> highScore s' = Num b \<and> a < b)"
  using assms
proof (induction ops arbitrary: s)
  case Nil
  then show ?case by simp
next
  case (Cons op ops)
  from Cons.prems obtain s1 where s1: "step op s = Some s1" and rest: "run ops s1 = Some s'"
    by (auto split: option.splits)
  from step_up [OF s1] Cons.IH [OF rest] show ?case
    by (elim disjE exE conjE) auto
qed

lemma parseInt_no_numeral:
  assumes "\<not> isWhiteSpace c" and "c \<noteq> CHR ''-''" and "c \<noteq> CHR ''+''" and "\<not> isRadixDigit 10 c"
  shows "parseInt (c # rest) = NaN"
proof -
  from assms(4) have "c \<noteq> CHR ''0''"
    by (auto simp: isRadixDigit_def digitValue_def)
  then have "stripPrefix (c # rest) = (10, c # rest)"
    by (cases rest) (simp_all add: stripPrefix_def)
  with assms show ?thesis
    by (simp add: parseInt_def stripSign_def)
qed

text \<open>
  What the initialiser of \<open>highScore\<close> gives: 0 for an absent key and for the empty string,
  the stored integer when its decimal form is stored and it is a double, \<open>NaN\<close> when the
  stored string starts with a character that is neither white space, nor a sign, nor a
  decimal digit.
\<close>

lemma loadHighScore_cases:
  "(getItem storeA ''snakeHighScore'' = None \<longrightarrow> loadHighScore storeA = Num 0)
   \<and> (getItem storeE ''snakeHighScore'' = Some [] \<longrightarrow> loadHighScore storeE = Num 0)
   \<and> (getItem storeN ''snakeHighScore'' = Some (toString n) \<and> \<bar>n\<bar> < 2 ^ 53
        \<longrightarrow> loadHighScore storeN = Num n)
   \<and> (getItem storeM ''snakeHighScore'' = Some (c # rest)
        \<and> \<not> isWhiteSpace c \<and> c \<noteq> CHR ''-'' \<and> c \<noteq> CHR ''+'' \<and> \<not> isRadixDigit 10 c
      \<longrightarrow> loadHighScore storeM = NaN)"
proof (intro conjI impI)
  assume "getItem storeN ''snakeHighScore'' = Some (toString n) \<and> \<bar>n\<bar> < 2 ^ 53"
  then show "loadHighScore storeN = Num n"
    by (simp add: loadHighScore_def toString_nonempty parseInt_toString)
next
  assume "getItem storeM ''snakeHighScore'' = Some (c # rest)
        \<and> \<not> isWhiteSpace c \<and> c \<noteq> CHR ''-'' \<and> c \<noteq> CHR ''+'' \<and> \<not> isRadixDigit 10 c"
  then show "loadHighScore storeM = NaN"
    by (simp add: loadHighScore_def parseInt_no_numeral)
qed (simp_all add: loadHighScore_def)

text \<open>What the food loop does guarantee: the new food is off the snake of before the tick.\<close>

lemma eaten_food_off_old_snake:
  assumes "gameRunning s" and "\<not> gameOver s" and "snake s = h # t"
    and "\<not> hitsWall (newHead h (direction s))"
    and "newHead h (direction s) \<notin> set (snake s)"
    and "newHead h (direction s) = food s"
    and "moveSnake s = Some s'"
  shows "food s' \<notin> set (snake s) \<and> snake s' = newHead h (direction s) # snake s"
proof (cases "generateFood (snake s) (mathRandom s)")
  case None
  have "\<not> occupies (h # t) (newHead h (direction s))"
    using assms(5) unfolding assms(3) by (simp only: occupies_iff not_False_eq_True)
  moreover have "px (newHead h (direction s)) = px (food s) \<and> py (newHead h (direction s)) = py (food s)"
    by (simp only: assms(6) simp_thms)
  moreover have "generateFood (h # t) (mathRandom s) = None"
    using None unfolding assms(3) .
  ultimately have "moveSnake s = None"
    unfolding moveSnake_def Let_def
    by (simp only: assms(1-4) list.case option.case simp_thms if_True if_False)
  with assms(7) show ?thesis by simp
next
  case (Some r)
  obtain newFood rs where r: "r = (newFood, rs)" by (cases r)
  with Some have gen: "generateFood (snake s) (mathRandom s) = Some (newFood, rs)" by simp
  from generateFood_sound [OF Some] r have "newFood \<notin> set (snake s)"
    by (simp add: occupies_iff)
  moreover from moveSnake_eat [OF assms(1-6) gen] assms(7)
  have "s' = addScore (toast \<lparr>title = ''Yummy!'', description = ''+10 points'', variant = Default\<rparr>
                (s\<lparr>food := newFood, mathRandom := rs, snake := newHead h (direction s) # snake s\<rparr>))"
    by simp
  ultimately show ?thesis by (simp add: toast_fields addScore_fields)
qed

section \<open>The claims\<close>

text \<open>
  In the statements below a tick that eats needs the food loop to end. That is the
  hypothesis that some pair of coming random values, the \<open>k\<close>-th, gives a cell off the
  snake: \<open>\<not> occupies (snake s) (randomCell (sdrop (2 * k) (mathRandom s)))\<close>.
\<close>

subsection \<open>C1: the new food and the snake after the tick\<close>

text \<open>
  C1 says that on a tick that eats, the regenerated food cell is no cell of the snake after
  that tick, the new head included. \<open>generateFood\<close> compares its candidate with the snake
  of before the tick, so the cell of the new head, the old food cell, is not excluded. The
  run below starts a game, steers the snake from \<open>(10, 10)\<close> to the food at \<open>(5, 5)\<close> and
  eats it while \<open>Math.random()\<close> returns 0.25, which gives the candidate \<open>(5, 5)\<close>: the new
  food is on the head of the snake.
\<close>

theorem new_food_lands_on_new_head:
  "run [Start, Key ''ArrowLeft'', Tick, Tick, Tick, Tick, Tick,
        Key ''ArrowUp'', Tick, Tick, Tick, Tick, Tick]
     (initialState [] (sconst (1 / 4)))
   = Some \<lparr>snake = [\<lparr>px = 5, py = 5\<rparr>, \<lparr>px = 5, py = 6\<rparr>],
           food = \<lparr>px = 5, py = 5\<rparr>,
           direction = \<lparr>px = 0, py = -1\<rparr>,
           gameRunning = True, score = 10, gameOver = False,
           highScore = Num 10,
           localStorage = [(''snakeHighScore'', ''10'')],
           toasts = [\<lparr>title = ''Yummy!'', description = ''+10 points'', variant = Default\<rparr>,
                     \<lparr>title = ''New High Score!'', description = ''Amazing! New record: 10'',
                      variant = Default\<rparr>],
           mathRandom = sconst (1 / 4)\<rparr>"
proof -
  have load: "loadHighScore [] = Num 0"
    by (simp add: loadHighScore_def getItem_def)
  have str: "toString 10 = ''10''"
    by (simp add: toString_def natToString.simps digitChar_def)
  have five: "toDouble 5 = 5"
    using toDouble_of_int [of 5] by simp
  have gen: "generateFood [\<lparr>px = 5, py = 6\<rparr>] (sconst (1 / 4)) = Some (\<lparr>px = 5, py = 5\<rparr>, sconst (1 / 4))"
    by (subst generateFood.simps) (simp add: randomCell_def occupies_def GRID_SIZE_def five)
  show ?thesis
    by (simp add: initialState_def load gen str startGame_def handleKeyPress_def
        INITIAL_SNAKE_def INITIAL_FOOD_def INITIAL_DIRECTION_def
        moveSnake_def newHead_def hitsWall_def GRID_SIZE_def occupies_def Let_def
        addScore_def toast_def setItem_def)
qed

subsection \<open>C2: a collision ends the game and changes nothing else\<close>

text \<open>
  C2. In a state with \<open>gameRunning\<close> true and \<open>gameOver\<close> false, when the new head (the old
  head plus the direction) is outside \<open>[0, GRID_SIZE)\<close> in a coordinate, or is a cell of
  the snake, the tick returns a state with \<open>gameOver\<close> true and \<open>gameRunning\<close> false whose
  snake, food and score are those of the state before.
\<close>

theorem tick_collision_ends_game:
  assumes "gameRunning s" and "\<not> gameOver s" and "snake s = h # t"
    and "\<not> (0 \<le> px (newHead h (direction s)) \<and> px (newHead h (direction s)) < GRID_SIZE
           \<and> 0 \<le> py (newHead h (direction s)) \<and> py (newHead h (direction s)) < GRID_SIZE)
         \<or> newHead h (direction s) \<in> set (snake s)"
  shows "\<exists>s'. moveSnake s = Some s' \<and> gameOver s' \<and> \<not> gameRunning s'
           \<and> snake s' = snake s \<and> food s' = food s \<and> score s' = score s"
proof (cases "hitsWall (newHead h (direction s))")
  case True
  from moveSnake_wall [OF assms(1-3) True] show ?thesis
    by (simp add: endGame_fields)
next
  case False
  with assms(4) have "newHead h (direction s) \<in> set (snake s)"
    by (auto simp: hitsWall_def)
  from moveSnake_self [OF assms(1-3) False this] show ?thesis
    by (simp add: endGame_fields)
qed

theorem tick_collision_ends_game_witness:
  "let s = (initialState [] (sconst 0))
             \<lparr>snake := [\<lparr>px = 5, py = 5\<rparr>, \<lparr>px = 5, py = 6\<rparr>, \<lparr>px = 6, py = 6\<rparr>, \<lparr>px = 6, py = 5\<rparr>],
              direction := \<lparr>px = 1, py = 0\<rparr>, gameRunning := True\<rparr>;
       h = \<lparr>px = 5, py = 5\<rparr>;
       t = [\<lparr>px = 5, py = 6\<rparr>, \<lparr>px = 6, py = 6\<rparr>, \<lparr>px = 6, py = 5\<rparr>]
   in gameRunning s \<and> \<not> gameOver s \<and> snake s = h # t
      \<and> newHead h (direction s) \<in> set (snake s)
      \<and> (\<exists>s'. moveSnake s = Some s' \<and> gameOver s' \<and> \<not> gameRunning s'
             \<and> snake s' = snake s \<and> food s' = food s \<and> score s' = score s)"
proof -
  have "gameRunning s \<and> \<not> gameOver s \<and> snake s = h # t
      \<and> newHead h (direction s) \<in> set (snake s)
      \<and> (\<exists>s'. moveSnake s = Some s' \<and> gameOver s' \<and> \<not> gameRunning s'
             \<and> snake s' = snake s \<and> food s' = food s \<and> score s' = score s)"
    if s: "s = (initialState [] (sconst 0))
             \<lparr>snake := [\<lparr>px = 5, py = 5\<rparr>, \<lparr>px = 5, py = 6\<rparr>, \<lparr>px = 6, py = 6\<rparr>, \<lparr>px = 6, py = 5\<rparr>],
              direction := \<lparr>px = 1, py = 0\<rparr>, gameRunning := True\<rparr>"
      and h: "h = \<lparr>px = 5, py = 5\<rparr>"
      and t: "t = [\<lparr>px = 5, py = 6\<rparr>, \<lparr>px = 6, py = 6\<rparr>, \<lparr>px = 6, py = 5\<rparr>]"
    for s h t
  proof -
    have 1: "gameRunning s" and 2: "\<not> gameOver s" and 3: "snake s = h # t"
      by (simp_all add: s h t initialState_def)
    have 4: "newHead h (direction s) \<in> set (snake s)"
      by (simp add: s h t newHead_def)
    from tick_collision_ends_game [OF 1 2 3 disjI2 [OF 4]] 1 2 3 4 show ?thesis
      by blast
  qed
  from this [OF refl refl refl] show ?thesis
    unfolding Let_def .
qed

subsection \<open>C3: loading the stored high score\<close>

text \<open>
  C3 says that loading the stored high score gives the stored integer when one is stored
  and falls back to 0 when the stored value is absent or is not an integer. The
  initialiser does fall back to 0 for an absent key and for the empty string, but a stored
  string that \<open>parseInt\<close> cannot read goes through \<open>parseInt\<close> all the same: the stored
  string \<open>abc\<close> makes the initial \<open>highScore\<close> \<open>NaN\<close>, not 0.
\<close>

theorem stored_garbage_loads_as_NaN:
  "loadHighScore [(''snakeHighScore'', ''abc'')] = NaN
   \<and> loadHighScore [(''snakeHighScore'', ''abc'')] \<noteq> Num 0
   \<and> highScore (initialState [(''snakeHighScore'', ''abc'')] (sconst 0)) = NaN"
  by (simp add: initialState_def loadHighScore_def getItem_def parseInt_def stripSign_def
      stripPrefix_def isWhiteSpace_def isRadixDigit_def digitValue_def)

subsection \<open>C4: an arrow key is accepted exactly when its axis is not the current one\<close>

text \<open>
  C4. A key press changes nothing while \<open>gameRunning\<close> is false. While it is true,
  \<open>ArrowUp\<close> and \<open>ArrowDown\<close> are rejected (the state stays) exactly when \<open>direction.y\<close> is
  not 0, \<open>ArrowLeft\<close> and \<open>ArrowRight\<close> exactly when \<open>direction.x\<close> is not 0; an accepted
  arrow sets the direction to its unit vector and changes nothing else. So the arrow
  opposite to the current direction is always rejected, and with direction \<open>(1, 0)\<close> the
  perpendicular arrows Up and Down are accepted.
\<close>

theorem arrow_accepted_iff_axis_differs:
  "(\<not> gameRunning p \<longrightarrow> handleKeyPress key p = p)
   \<and> (gameRunning s \<longrightarrow>
        handleKeyPress ''ArrowUp'' s =
          (if py (direction s) \<noteq> 0 then s else s\<lparr>direction := \<lparr>px = 0, py = -1\<rparr>\<rparr>)
      \<and> handleKeyPress ''ArrowDown'' s =
          (if py (direction s) \<noteq> 0 then s else s\<lparr>direction := \<lparr>px = 0, py = 1\<rparr>\<rparr>)
      \<and> handleKeyPress ''ArrowLeft'' s =
          (if px (direction s) \<noteq> 0 then s else s\<lparr>direction := \<lparr>px = -1, py = 0\<rparr>\<rparr>)
      \<and> handleKeyPress ''ArrowRight'' s =
          (if px (direction s) \<noteq> 0 then s else s\<lparr>direction := \<lparr>px = 1, py = 0\<rparr>\<rparr>))
   \<and> direction (handleKeyPress ''ArrowUp'' (r\<lparr>direction := \<lparr>px = 0, py = 1\<rparr>\<rparr>)) = \<lparr>px = 0, py = 1\<rparr>
   \<and> direction (handleKeyPress ''ArrowDown'' (r\<lparr>direction := \<lparr>px = 0, py = -1\<rparr>\<rparr>)) = \<lparr>px = 0, py = -1\<rparr>
   \<and> direction (handleKeyPress ''ArrowLeft'' (r\<lparr>direction := \<lparr>px = 1, py = 0\<rparr>\<rparr>)) = \<lparr>px = 1, py = 0\<rparr>
   \<and> direction (handleKeyPress ''ArrowRight'' (r\<lparr>direction := \<lparr>px = -1, py = 0\<rparr>\<rparr>)) = \<lparr>px = -1, py = 0\<rparr>
   \<and> direction (handleKeyPress ''ArrowUp'' (r\<lparr>direction := \<lparr>px = 1, py = 0\<rparr>, gameRunning := True\<rparr>))
        = \<lparr>px = 0, py = -1\<rparr>
   \<and> direction (handleKeyPress ''ArrowDown'' (r\<lparr>direction := \<lparr>px = 1, py = 0\<rparr>, gameRunning := True\<rparr>))
        = \<lparr>px = 0, py = 1\<rparr>"
  by (simp add: handleKeyPress_def)

theorem arrow_accepted_iff_axis_differs_witness:
  "let p = initialState [] (sconst 0);
       s = (initialState [] (sconst 0))\<lparr>gameRunning := True\<rparr>
   in \<not> gameRunning p \<and> handleKeyPress ''ArrowLeft'' p = p
      \<and> gameRunning s \<and> direction s = \<lparr>px = 0, py = -1\<rparr>
      \<and> handleKeyPress ''ArrowUp'' s = s
      \<and> handleKeyPress ''ArrowDown'' s = s
      \<and> handleKeyPress ''ArrowLeft'' s = s\<lparr>direction := \<lparr>px = -1, py = 0\<rparr>\<rparr>
      \<and> handleKeyPress ''ArrowRight'' s = s\<lparr>direction := \<lparr>px = 1, py = 0\<rparr>\<rparr>"
proof -
  have "\<not> gameRunning p \<and> handleKeyPress ''ArrowLeft'' p = p
      \<and> gameRunning s \<and> direction s = \<lparr>px = 0, py = -1\<rparr>
      \<and> handleKeyPress ''ArrowUp'' s = s
      \<and> handleKeyPress ''ArrowDown'' s = s
      \<and> handleKeyPress ''ArrowLeft'' s = s\<lparr>direction := \<lparr>px = -1, py = 0\<rparr>\<rparr>
      \<and> handleKeyPress ''ArrowRight'' s = s\<lparr>direction := \<lparr>px = 1, py = 0\<rparr>\<rparr>"
    if p: "p = initialState [] (sconst 0)"
      and s: "s = (initialState [] (sconst 0))\<lparr>gameRunning := True\<rparr>"
    for p s
  proof -
    have f: "\<not> gameRunning p" "gameRunning s" "direction s = \<lparr>px = 0, py = -1\<rparr>"
      by (simp_all add: p s initialState_def INITIAL_DIRECTION_def)
    note T = arrow_accepted_iff_axis_differs [where p = p and key = "''ArrowLeft''" and s = s]
    from T f(1) have c1: "handleKeyPress ''ArrowLeft'' p = p" by blast
    from T f(2) have
      "handleKeyPress ''ArrowUp'' s =
          (if py (direction s) \<noteq> 0 then s else s\<lparr>direction := \<lparr>px = 0, py = -1\<rparr>\<rparr>)"
      "handleKeyPress ''ArrowDown'' s =
          (if py (direction s) \<noteq> 0 then s else s\<lparr>direction := \<lparr>px = 0, py = 1\<rparr>\<rparr>)"
      "handleKeyPress ''ArrowLeft'' s =
          (if px (direction s) \<noteq> 0 then s else s\<lparr>direction := \<lparr>px = -1, py = 0\<rparr>\<rparr>)"
      "handleKeyPress ''ArrowRight'' s =
          (if px (direction s) \<noteq> 0 then s else s\<lparr>direction := \<lparr>px = 1, py = 0\<rparr>\<rparr>)"
      by blast+
    then have c2: "handleKeyPress ''ArrowUp'' s = s" "handleKeyPress ''ArrowDown'' s = s"
      "handleKeyPress ''ArrowLeft'' s = s\<lparr>direction := \<lparr>px = -1, py = 0\<rparr>\<rparr>"
      "handleKeyPress ''ArrowRight'' s = s\<lparr>direction := \<lparr>px = 1, py = 0\<rparr>\<rparr>"
      by (simp_all add: f(3))
    from f c1 c2 show ?thesis by blast
  qed
  from this [OF refl refl] show ?thesis
    unfolding Let_def .
qed

subsection \<open>C5: the head moves by the direction, and the grid does not wrap\<close>

text \<open>
  C5. On a tick taken while running and not over, with the new head inside the grid and off
  the snake, the head of the snake after the tick is the old head plus the direction,
  coordinate by coordinate. A new head outside \<open>[0, GRID_SIZE)\<close> is never wrapped: the
  tick ends the game and keeps the snake. From the initial state, started, ten ticks with
  no key pressed put the head at \<open>(10, 0)\<close>; the eleventh tick is a wall collision, with
  \<open>gameOver\<close> true, \<open>gameRunning\<close> false and the score still 0. This holds for every
  stored high score and every random sequence.
\<close>

theorem tick_head_is_old_head_plus_direction:
  "(gameRunning s \<and> \<not> gameOver s \<and> snake s = h # t
      \<and> 0 \<le> px h + px (direction s) \<and> px h + px (direction s) < GRID_SIZE
      \<and> 0 \<le> py h + py (direction s) \<and> py h + py (direction s) < GRID_SIZE
      \<and> \<lparr>px = px h + px (direction s), py = py h + py (direction s)\<rparr> \<notin> set (snake s)
      \<and> (\<lparr>px = px h + px (direction s), py = py h + py (direction s)\<rparr> \<noteq> food s
          \<or> \<not> occupies (snake s) (randomCell (sdrop (2 * k) (mathRandom s))))
     \<longrightarrow> (\<exists>s'. moveSnake s = Some s' \<and> \<not> gameOver s'
            \<and> hd (snake s') = \<lparr>px = px h + px (direction s), py = py h + py (direction s)\<rparr>))
   \<and> (gameRunning w \<and> \<not> gameOver w \<and> snake w = hw # tw
      \<and> (px hw + px (direction w) < 0 \<or> GRID_SIZE \<le> px hw + px (direction w)
          \<or> py hw + py (direction w) < 0 \<or> GRID_SIZE \<le> py hw + py (direction w))
     \<longrightarrow> (\<exists>s'. moveSnake w = Some s' \<and> gameOver s' \<and> \<not> gameRunning s' \<and> snake s' = snake w))
   \<and> (\<exists>s10 s11.
        run [Start, Tick, Tick, Tick, Tick, Tick, Tick, Tick, Tick, Tick, Tick] (initialState store rs) = Some s10
        \<and> snake s10 = [\<lparr>px = 10, py = 0\<rparr>] \<and> gameRunning s10 \<and> \<not> gameOver s10
        \<and> moveSnake s10 = Some s11
        \<and> gameOver s11 \<and> \<not> gameRunning s11 \<and> score s11 = 0 \<and> snake s11 = [\<lparr>px = 10, py = 0\<rparr>])"
proof (intro conjI impI)
  assume a: "gameRunning s \<and> \<not> gameOver s \<and> snake s = h # t
      \<and> 0 \<le> px h + px (direction s) \<and> px h + px (direction s) < GRID_SIZE
      \<and> 0 \<le> py h + py (direction s) \<and> py h + py (direction s) < GRID_SIZE
      \<and> \<lparr>px = px h + px (direction s), py = py h + py (direction s)\<rparr> \<notin> set (snake s)
      \<and> (\<lparr>px = px h + px (direction s), py = py h + py (direction s)\<rparr> \<noteq> food s
          \<or> \<not> occupies (snake s) (randomCell (sdrop (2 * k) (mathRandom s))))"
  have nh: "\<lparr>px = px h + px (direction s), py = py h + py (direction s)\<rparr> = newHead h (direction s)"
    by (simp add: newHead_def)
  from a have run: "gameRunning s" and live: "\<not> gameOver s" and sn: "snake s = h # t" by simp_all
  from a have inside: "\<not> hitsWall (newHead h (direction s))"
    by (simp add: inside_iff newHead_def)
  from a have free: "newHead h (direction s) \<notin> set (snake s)"
    unfolding nh by blast
  show "\<exists>s'. moveSnake s = Some s' \<and> \<not> gameOver s'
            \<and> hd (snake s') = \<lparr>px = px h + px (direction s), py = py h + py (direction s)\<rparr>"
  proof (cases "newHead h (direction s) = food s")
    case True
    with a have "\<not> occupies (snake s) (randomCell (sdrop (2 * k) (mathRandom s)))"
      unfolding nh by blast
    from moveSnake_eat_fair [OF run live sn inside free True this] live
    show ?thesis unfolding nh by (auto simp: toast_fields addScore_fields)
  next
    case False
    from moveSnake_move [OF run live sn inside free False] live sn
    show ?thesis unfolding nh by simp
  qed
next
  assume a: "gameRunning w \<and> \<not> gameOver w \<and> snake w = hw # tw
      \<and> (px hw + px (direction w) < 0 \<or> GRID_SIZE \<le> px hw + px (direction w)
          \<or> py hw + py (direction w) < 0 \<or> GRID_SIZE \<le> py hw + py (direction w))"
  then have "hitsWall (newHead hw (direction w))"
    by (simp add: hitsWall_def newHead_def)
  with a have "moveSnake w = Some (endGame ''You hit the wall!'' w)"
    by (simp add: moveSnake_wall)
  then show "\<exists>s'. moveSnake w = Some s' \<and> gameOver s' \<and> \<not> gameRunning s' \<and> snake s' = snake w"
    by (simp add: endGame_fields)
next
  show "\<exists>s10 s11.
        run [Start, Tick, Tick, Tick, Tick, Tick, Tick, Tick, Tick, Tick, Tick] (initialState store rs) = Some s10
        \<and> snake s10 = [\<lparr>px = 10, py = 0\<rparr>] \<and> gameRunning s10 \<and> \<not> gameOver s10
        \<and> moveSnake s10 = Some s11
        \<and> gameOver s11 \<and> \<not> gameRunning s11 \<and> score s11 = 0 \<and> snake s11 = [\<lparr>px = 10, py = 0\<rparr>]"
    by (simp add: initialState_def startGame_def INITIAL_SNAKE_def INITIAL_FOOD_def INITIAL_DIRECTION_def
        moveSnake_def newHead_def hitsWall_def GRID_SIZE_def occupies_def Let_def endGame_def toast_def)
qed

theorem tick_head_is_old_head_plus_direction_witness:
  "let s = (initialState [] (sconst 0))\<lparr>gameRunning := True\<rparr>;
       h = \<lparr>px = 10, py = 10\<rparr>;
       w = (initialState [] (sconst 0))\<lparr>snake := [\<lparr>px = 10, py = 0\<rparr>], gameRunning := True\<rparr>;
       hw = \<lparr>px = 10, py = 0\<rparr>
   in gameRunning s \<and> \<not> gameOver s \<and> snake s = [h]
      \<and> 0 \<le> px h + px (direction s) \<and> px h + px (direction s) < GRID_SIZE
      \<and> 0 \<le> py h + py (direction s) \<and> py h + py (direction s) < GRID_SIZE
      \<and> \<lparr>px = px h + px (direction s), py = py h + py (direction s)\<rparr> \<notin> set (snake s)
      \<and> \<lparr>px = px h + px (direction s), py = py h + py (direction s)\<rparr> \<noteq> food s
      \<and> (\<exists>s'. moveSnake s = Some s' \<and> \<not> gameOver s' \<and> hd (snake s') = \<lparr>px = 10, py = 9\<rparr>)
      \<and> gameRunning w \<and> \<not> gameOver w \<and> snake w = [hw]
      \<and> py hw + py (direction w) < 0
      \<and> (\<exists>s'. moveSnake w = Some s' \<and> gameOver s' \<and> \<not> gameRunning s' \<and> snake s' = snake w)"
proof -
  have "gameRunning s \<and> \<not> gameOver s \<and> snake s = [h]
      \<and> 0 \<le> px h + px (direction s) \<and> px h + px (direction s) < GRID_SIZE
      \<and> 0 \<le> py h + py (direction s) \<and> py h + py (direction s) < GRID_SIZE
      \<and> \<lparr>px = px h + px (direction s), py = py h + py (direction s)\<rparr> \<notin> set (snake s)
      \<and> \<lparr>px = px h + px (direction s), py = py h + py (direction s)\<rparr> \<noteq> food s
      \<and> (\<exists>s'. moveSnake s = Some s' \<and> \<not> gameOver s' \<and> hd (snake s') = \<lparr>px = 10, py = 9\<rparr>)
      \<and> gameRunning w \<and> \<not> gameOver w \<and> snake w = [hw]
      \<and> py hw + py (direction w) < 0
      \<and> (\<exists>s'. moveSnake w = Some s' \<and> gameOver s' \<and> \<not> gameRunning s' \<and> snake s' = snake w)"
    if s: "s = (initialState [] (sconst 0))\<lparr>gameRunning := True\<rparr>"
      and h: "h = \<lparr>px = 10, py = 10\<rparr>"
      and w: "w = (initialState [] (sconst 0))\<lparr>snake := [\<lparr>px = 10, py = 0\<rparr>], gameRunning := True\<rparr>"
      and hw: "hw = \<lparr>px = 10, py = 0\<rparr>"
    for s h w hw
  proof -
    have fields: "gameRunning s" "\<not> gameOver s" "snake s = [h]" "direction s = \<lparr>px = 0, py = -1\<rparr>"
      "food s = \<lparr>px = 5, py = 5\<rparr>"
      "gameRunning w" "\<not> gameOver w" "snake w = [hw]" "direction w = \<lparr>px = 0, py = -1\<rparr>"
      by (simp_all add: s h w hw initialState_def INITIAL_SNAKE_def INITIAL_DIRECTION_def INITIAL_FOOD_def)
    have hyps: "0 \<le> px h + px (direction s)" "px h + px (direction s) < GRID_SIZE"
      "0 \<le> py h + py (direction s)" "py h + py (direction s) < GRID_SIZE"
      "\<lparr>px = px h + px (direction s), py = py h + py (direction s)\<rparr> \<notin> set (snake s)"
      "\<lparr>px = px h + px (direction s), py = py h + py (direction s)\<rparr> \<noteq> food s"
      "py hw + py (direction w) < 0"
      by (simp_all add: fields h hw GRID_SIZE_def)
    have nine: "\<lparr>px = px h + px (direction s), py = py h + py (direction s)\<rparr> = \<lparr>px = 10, py = 9\<rparr>"
      by (simp add: fields h)
    note T = tick_head_is_old_head_plus_direction
      [where s = s and h = h and t = "[]" and k = 0 and w = w and hw = hw and tw = "[]"]
    from T fields(1-3) hyps(1-6)
    have "\<exists>s'. moveSnake s = Some s' \<and> \<not> gameOver s'
            \<and> hd (snake s') = \<lparr>px = px h + px (direction s), py = py h + py (direction s)\<rparr>"
      by blast
    moreover from T fields(6-8) hyps(7)
    have "\<exists>s'. moveSnake w = Some s' \<and> gameOver s' \<and> \<not> gameRunning s' \<and> snake s' = snake w"
      by blast
    ultimately show ?thesis
      using fields(1-3,6-8) hyps unfolding nine by blast
  qed
  from this [OF refl refl refl refl] show ?thesis
    unfolding Let_def .
qed

subsection \<open>C6: eating scores ten and grows the snake by one cell\<close>

text \<open>
  C6. On a tick that does not end the game and whose new head is the food cell, the score
  goes up by exactly 10 and no cell is removed: the snake is the new head before the old
  list, one cell longer. On a tick that does not end the game and whose new head is not
  the food cell, the last cell is removed and the length stays (the score too). From the
  snake \<open>[(1,1)]\<close>, food \<open>(2,1)\<close>, direction \<open>(1,0)\<close> and score 0, one tick gives score 10
  and the snake \<open>[(2,1), (1,1)]\<close>.
\<close>

theorem eating_grows_and_scores_ten:
  "(gameRunning s \<and> \<not> gameOver s \<and> snake s = h # t
      \<and> \<not> hitsWall (newHead h (direction s)) \<and> newHead h (direction s) \<notin> set (snake s)
      \<and> newHead h (direction s) = food s
      \<and> \<not> occupies (snake s) (randomCell (sdrop (2 * k) (mathRandom s)))
     \<longrightarrow> (\<exists>s'. moveSnake s = Some s' \<and> \<not> gameOver s' \<and> score s' = score s + 10
            \<and> snake s' = newHead h (direction s) # snake s
            \<and> length (snake s') = length (snake s) + 1))
   \<and> (gameRunning w \<and> \<not> gameOver w \<and> snake w = hw # tw
      \<and> \<not> hitsWall (newHead hw (direction w)) \<and> newHead hw (direction w) \<notin> set (snake w)
      \<and> newHead hw (direction w) \<noteq> food w
     \<longrightarrow> (\<exists>s'. moveSnake w = Some s' \<and> \<not> gameOver s' \<and> score s' = score w
            \<and> snake s' = newHead hw (direction w) # butlast (snake w)
            \<and> length (snake s') = length (snake w)))
   \<and> (gameRunning u \<and> \<not> gameOver u \<and> score u = 0
      \<and> snake u = [\<lparr>px = 1, py = 1\<rparr>] \<and> food u = \<lparr>px = 2, py = 1\<rparr> \<and> direction u = \<lparr>px = 1, py = 0\<rparr>
      \<and> \<not> occupies (snake u) (randomCell (sdrop (2 * j) (mathRandom u)))
     \<longrightarrow> (\<exists>s'. moveSnake u = Some s' \<and> score s' = 10
            \<and> snake s' = [\<lparr>px = 2, py = 1\<rparr>, \<lparr>px = 1, py = 1\<rparr>]))"
proof (intro conjI impI)
  assume a: "gameRunning s \<and> \<not> gameOver s \<and> snake s = h # t
      \<and> \<not> hitsWall (newHead h (direction s)) \<and> newHead h (direction s) \<notin> set (snake s)
      \<and> newHead h (direction s) = food s
      \<and> \<not> occupies (snake s) (randomCell (sdrop (2 * k) (mathRandom s)))"
  then have "\<exists>newFood rs. moveSnake s =
     Some (addScore (toast \<lparr>title = ''Yummy!'', description = ''+10 points'', variant = Default\<rparr>
                (s\<lparr>food := newFood, mathRandom := rs, snake := newHead h (direction s) # snake s\<rparr>)))"
    by (intro moveSnake_eat_fair) blast+
  with a show "\<exists>s'. moveSnake s = Some s' \<and> \<not> gameOver s' \<and> score s' = score s + 10
            \<and> snake s' = newHead h (direction s) # snake s
            \<and> length (snake s') = length (snake s) + 1"
    by (auto simp: toast_fields addScore_fields)
next
  assume a: "gameRunning w \<and> \<not> gameOver w \<and> snake w = hw # tw
      \<and> \<not> hitsWall (newHead hw (direction w)) \<and> newHead hw (direction w) \<notin> set (snake w)
      \<and> newHead hw (direction w) \<noteq> food w"
  then have "moveSnake w = Some (w\<lparr>snake := butlast (newHead hw (direction w) # snake w)\<rparr>)"
    by (intro moveSnake_move) blast+
  moreover from a have "snake w \<noteq> []" by auto
  ultimately show "\<exists>s'. moveSnake w = Some s' \<and> \<not> gameOver s' \<and> score s' = score w
            \<and> snake s' = newHead hw (direction w) # butlast (snake w)
            \<and> length (snake s') = length (snake w)"
    using a by auto
next
  assume a: "gameRunning u \<and> \<not> gameOver u \<and> score u = 0
      \<and> snake u = [\<lparr>px = 1, py = 1\<rparr>] \<and> food u = \<lparr>px = 2, py = 1\<rparr> \<and> direction u = \<lparr>px = 1, py = 0\<rparr>
      \<and> \<not> occupies (snake u) (randomCell (sdrop (2 * j) (mathRandom u)))"
  then have nh: "newHead \<lparr>px = 1, py = 1\<rparr> (direction u) = \<lparr>px = 2, py = 1\<rparr>"
    by (simp add: newHead_def)
  have "\<exists>newFood rs. moveSnake u =
     Some (addScore (toast \<lparr>title = ''Yummy!'', description = ''+10 points'', variant = Default\<rparr>
                (u\<lparr>food := newFood, mathRandom := rs, snake := newHead \<lparr>px = 1, py = 1\<rparr> (direction u) # snake u\<rparr>)))"
  proof (rule moveSnake_eat_fair)
    from a show "gameRunning u" "\<not> gameOver u" "snake u = [\<lparr>px = 1, py = 1\<rparr>]"
      "\<not> occupies (snake u) (randomCell (sdrop (2 * j) (mathRandom u)))"
      by blast+
    from a show "\<not> hitsWall (newHead \<lparr>px = 1, py = 1\<rparr> (direction u))"
      unfolding nh by (simp add: hitsWall_def GRID_SIZE_def)
    from a show "newHead \<lparr>px = 1, py = 1\<rparr> (direction u) \<notin> set (snake u)"
      unfolding nh by simp
    from a show "newHead \<lparr>px = 1, py = 1\<rparr> (direction u) = food u"
      unfolding nh by simp
  qed
  with a show "\<exists>s'. moveSnake u = Some s' \<and> score s' = 10
            \<and> snake s' = [\<lparr>px = 2, py = 1\<rparr>, \<lparr>px = 1, py = 1\<rparr>]"
    unfolding nh by (auto simp: toast_fields addScore_fields)
qed

theorem eating_grows_and_scores_ten_witness:
  "let e = (initialState [] (sconst 0))
             \<lparr>snake := [\<lparr>px = 1, py = 1\<rparr>], food := \<lparr>px = 2, py = 1\<rparr>,
              direction := \<lparr>px = 1, py = 0\<rparr>, gameRunning := True\<rparr>;
       h = \<lparr>px = 1, py = 1\<rparr>;
       w = (initialState [] (sconst 0))\<lparr>gameRunning := True\<rparr>;
       hw = \<lparr>px = 10, py = 10\<rparr>
   in gameRunning e \<and> \<not> gameOver e \<and> snake e = [h]
      \<and> \<not> hitsWall (newHead h (direction e)) \<and> newHead h (direction e) \<notin> set (snake e)
      \<and> newHead h (direction e) = food e
      \<and> \<not> occupies (snake e) (randomCell (sdrop (2 * 0) (mathRandom e)))
      \<and> score e = 0 \<and> snake e = [\<lparr>px = 1, py = 1\<rparr>] \<and> food e = \<lparr>px = 2, py = 1\<rparr>
      \<and> direction e = \<lparr>px = 1, py = 0\<rparr>
      \<and> (\<exists>s'. moveSnake e = Some s' \<and> \<not> gameOver s' \<and> score s' = score e + 10
            \<and> snake s' = newHead h (direction e) # snake e
            \<and> length (snake s') = length (snake e) + 1)
      \<and> (\<exists>s'. moveSnake e = Some s' \<and> score s' = 10
            \<and> snake s' = [\<lparr>px = 2, py = 1\<rparr>, \<lparr>px = 1, py = 1\<rparr>])
      \<and> gameRunning w \<and> \<not> gameOver w \<and> snake w = [hw]
      \<and> \<not> hitsWall (newHead hw (direction w)) \<and> newHead hw (direction w) \<notin> set (snake w)
      \<and> newHead hw (direction w) \<noteq> food w
      \<and> (\<exists>s'. moveSnake w = Some s' \<and> \<not> gameOver s' \<and> score s' = score w
            \<and> snake s' = newHead hw (direction w) # butlast (snake w)
            \<and> length (snake s') = length (snake w))"
proof -
  have "gameRunning e \<and> \<not> gameOver e \<and> snake e = [h]
      \<and> \<not> hitsWall (newHead h (direction e)) \<and> newHead h (direction e) \<notin> set (snake e)
      \<and> newHead h (direction e) = food e
      \<and> \<not> occupies (snake e) (randomCell (sdrop (2 * 0) (mathRandom e)))
      \<and> score e = 0 \<and> snake e = [\<lparr>px = 1, py = 1\<rparr>] \<and> food e = \<lparr>px = 2, py = 1\<rparr>
      \<and> direction e = \<lparr>px = 1, py = 0\<rparr>
      \<and> (\<exists>s'. moveSnake e = Some s' \<and> \<not> gameOver s' \<and> score s' = score e + 10
            \<and> snake s' = newHead h (direction e) # snake e
            \<and> length (snake s') = length (snake e) + 1)
      \<and> (\<exists>s'. moveSnake e = Some s' \<and> score s' = 10
            \<and> snake s' = [\<lparr>px = 2, py = 1\<rparr>, \<lparr>px = 1, py = 1\<rparr>])
      \<and> gameRunning w \<and> \<not> gameOver w \<and> snake w = [hw]
      \<and> \<not> hitsWall (newHead hw (direction w)) \<and> newHead hw (direction w) \<notin> set (snake w)
      \<and> newHead hw (direction w) \<noteq> food w
      \<and> (\<exists>s'. moveSnake w = Some s' \<and> \<not> gameOver s' \<and> score s' = score w
            \<and> snake s' = newHead hw (direction w) # butlast (snake w)
            \<and> length (snake s') = length (snake w))"
    if e: "e = (initialState [] (sconst 0))
             \<lparr>snake := [\<lparr>px = 1, py = 1\<rparr>], food := \<lparr>px = 2, py = 1\<rparr>,
              direction := \<lparr>px = 1, py = 0\<rparr>, gameRunning := True\<rparr>"
      and h: "h = \<lparr>px = 1, py = 1\<rparr>"
      and w: "w = (initialState [] (sconst 0))\<lparr>gameRunning := True\<rparr>"
      and hw: "hw = \<lparr>px = 10, py = 10\<rparr>"
    for e h w hw
  proof -
    have fe: "gameRunning e" "\<not> gameOver e" "snake e = [h]" "score e = 0"
      "snake e = [\<lparr>px = 1, py = 1\<rparr>]" "food e = \<lparr>px = 2, py = 1\<rparr>" "direction e = \<lparr>px = 1, py = 0\<rparr>"
      by (simp_all add: e h initialState_def)
    have fw: "gameRunning w" "\<not> gameOver w" "snake w = [hw]"
      "direction w = \<lparr>px = 0, py = -1\<rparr>" "food w = \<lparr>px = 5, py = 5\<rparr>"
      by (simp_all add: w hw initialState_def INITIAL_SNAKE_def INITIAL_DIRECTION_def INITIAL_FOOD_def)
    have he: "\<not> hitsWall (newHead h (direction e))" "newHead h (direction e) \<notin> set (snake e)"
      "newHead h (direction e) = food e"
      by (simp_all add: fe(5-7) h newHead_def hitsWall_def GRID_SIZE_def)
    have fair: "\<not> occupies (snake e) (randomCell (sdrop (2 * 0) (mathRandom e)))"
      by (simp add: fe(5) e initialState_def occupies_def randomCell_def toDouble_zero)
    have hw': "\<not> hitsWall (newHead hw (direction w))" "newHead hw (direction w) \<notin> set (snake w)"
      "newHead hw (direction w) \<noteq> food w"
      by (simp_all add: fw hw newHead_def hitsWall_def GRID_SIZE_def)
    note T = eating_grows_and_scores_ten
      [where s = e and h = h and t = "[]" and k = 0 and w = w and hw = hw and tw = "[]"
         and u = e and j = 0]
    from T fe(1-3) he fair
    have c1: "\<exists>s'. moveSnake e = Some s' \<and> \<not> gameOver s' \<and> score s' = score e + 10
            \<and> snake s' = newHead h (direction e) # snake e
            \<and> length (snake s') = length (snake e) + 1"
      by blast
    from T fw(1-3) hw'
    have c2: "\<exists>s'. moveSnake w = Some s' \<and> \<not> gameOver s' \<and> score s' = score w
            \<and> snake s' = newHead hw (direction w) # butlast (snake w)
            \<and> length (snake s') = length (snake w)"
      by blast
    from T fe(1,2,4-7) fair
    have c3: "\<exists>s'. moveSnake e = Some s' \<and> score s' = 10
            \<and> snake s' = [\<lparr>px = 2, py = 1\<rparr>, \<lparr>px = 1, py = 1\<rparr>]"
      by blast
    from fe fw(1-3) he fair hw' c1 c2 c3 show ?thesis
      by blast
  qed
  from this [OF refl refl refl refl] show ?thesis
    unfolding Let_def .
qed

subsection \<open>C7: the high score is written once when it is beaten, and not otherwise\<close>

text \<open>
  C7. On a tick that eats, the new score is the old one plus 10. When \<open>highScore\<close> is an
  integer strictly below the new score, the tick issues exactly one \<open>setItem\<close>, of the new
  score under the key \<open>snakeHighScore\<close>, and \<open>highScore\<close> becomes the new score. When
  \<open>highScore\<close> is an integer and the new score is equal to it or below it, the tick issues
  no \<open>setItem\<close> and \<open>highScore\<close> stays; the same when \<open>highScore\<close> is \<open>NaN\<close>, which no
  score exceeds.
\<close>

theorem high_score_written_once_when_beaten:
  "(gameRunning s \<and> \<not> gameOver s \<and> snake s = h # t
      \<and> \<not> hitsWall (newHead h (direction s)) \<and> newHead h (direction s) \<notin> set (snake s)
      \<and> newHead h (direction s) = food s
      \<and> \<not> occupies (snake s) (randomCell (sdrop (2 * k) (mathRandom s)))
      \<and> highScore s = Num b \<and> b < score s + 10
     \<longrightarrow> (\<exists>s'. moveSnake s = Some s' \<and> score s' = score s + 10
            \<and> localStorage s' = (''snakeHighScore'', toString (score s + 10)) # localStorage s
            \<and> highScore s' = Num (score s + 10)))
   \<and> (gameRunning w \<and> \<not> gameOver w \<and> snake w = hw # tw
      \<and> \<not> hitsWall (newHead hw (direction w)) \<and> newHead hw (direction w) \<notin> set (snake w)
      \<and> newHead hw (direction w) = food w
      \<and> \<not> occupies (snake w) (randomCell (sdrop (2 * kw) (mathRandom w)))
      \<and> highScore w = Num c \<and> score w + 10 \<le> c
     \<longrightarrow> (\<exists>s'. moveSnake w = Some s' \<and> score s' = score w + 10
            \<and> localStorage s' = localStorage w \<and> highScore s' = Num c))
   \<and> (gameRunning u \<and> \<not> gameOver u \<and> snake u = hu # tu
      \<and> \<not> hitsWall (newHead hu (direction u)) \<and> newHead hu (direction u) \<notin> set (snake u)
      \<and> newHead hu (direction u) = food u
      \<and> \<not> occupies (snake u) (randomCell (sdrop (2 * ku) (mathRandom u)))
      \<and> highScore u = NaN
     \<longrightarrow> (\<exists>s'. moveSnake u = Some s' \<and> score s' = score u + 10
            \<and> localStorage s' = localStorage u \<and> highScore s' = NaN))"
proof (intro conjI impI)
  assume a: "gameRunning s \<and> \<not> gameOver s \<and> snake s = h # t
      \<and> \<not> hitsWall (newHead h (direction s)) \<and> newHead h (direction s) \<notin> set (snake s)
      \<and> newHead h (direction s) = food s
      \<and> \<not> occupies (snake s) (randomCell (sdrop (2 * k) (mathRandom s)))
      \<and> highScore s = Num b \<and> b < score s + 10"
  then have "\<exists>s'. moveSnake s = Some s' \<and> score s' = score s + 10
      \<and> highScore s' = (if greater (score s + 10) (highScore s) then Num (score s + 10) else highScore s)
      \<and> localStorage s' =
          (if greater (score s + 10) (highScore s)
           then (''snakeHighScore'', toString (score s + 10)) # localStorage s else localStorage s)"
    by (intro moveSnake_eat_score) blast+
  with a show "\<exists>s'. moveSnake s = Some s' \<and> score s' = score s + 10
            \<and> localStorage s' = (''snakeHighScore'', toString (score s + 10)) # localStorage s
            \<and> highScore s' = Num (score s + 10)"
    by auto
next
  assume a: "gameRunning w \<and> \<not> gameOver w \<and> snake w = hw # tw
      \<and> \<not> hitsWall (newHead hw (direction w)) \<and> newHead hw (direction w) \<notin> set (snake w)
      \<and> newHead hw (direction w) = food w
      \<and> \<not> occupies (snake w) (randomCell (sdrop (2 * kw) (mathRandom w)))
      \<and> highScore w = Num c \<and> score w + 10 \<le> c"
  then have "\<exists>s'. moveSnake w = Some s' \<and> score s' = score w + 10
      \<and> highScore s' = (if greater (score w + 10) (highScore w) then Num (score w + 10) else highScore w)
      \<and> localStorage s' =
          (if greater (score w + 10) (highScore w)
           then (''snakeHighScore'', toString (score w + 10)) # localStorage w else localStorage w)"
    by (intro moveSnake_eat_score) blast+
  with a show "\<exists>s'. moveSnake w = Some s' \<and> score s' = score w + 10
            \<and> localStorage s' = localStorage w \<and> highScore s' = Num c"
    by auto
next
  assume a: "gameRunning u \<and> \<not> gameOver u \<and> snake u = hu # tu
      \<and> \<not> hitsWall (newHead hu (direction u)) \<and> newHead hu (direction u) \<notin> set (snake u)
      \<and> newHead hu (direction u) = food u
      \<and> \<not> occupies (snake u) (randomCell (sdrop (2 * ku) (mathRandom u)))
      \<and> highScore u = NaN"
  then have "\<exists>s'. moveSnake u = Some s' \<and> score s' = score u + 10
      \<and> highScore s' = (if greater (score u + 10) (highScore u) then Num (score u + 10) else highScore u)
      \<and> localStorage s' =
          (if greater (score u + 10) (highScore u)
           then (''snakeHighScore'', toString (score u + 10)) # localStorage u else localStorage u)"
    by (intro moveSnake_eat_score) blast+
  with a show "\<exists>s'. moveSnake u = Some s' \<and> score s' = score u + 10
            \<and> localStorage s' = localStorage u \<and> highScore s' = NaN"
    by auto
qed

theorem high_score_written_once_when_beaten_witness:
  "let s = (initialState [(''snakeHighScore'', ''20'')] (sconst 0))
             \<lparr>snake := [\<lparr>px = 1, py = 1\<rparr>], food := \<lparr>px = 2, py = 1\<rparr>,
              direction := \<lparr>px = 1, py = 0\<rparr>, gameRunning := True, score := 20\<rparr>;
       w = (initialState [(''snakeHighScore'', ''20'')] (sconst 0))
             \<lparr>snake := [\<lparr>px = 1, py = 1\<rparr>], food := \<lparr>px = 2, py = 1\<rparr>,
              direction := \<lparr>px = 1, py = 0\<rparr>, gameRunning := True, score := 10\<rparr>;
       u = (initialState [(''snakeHighScore'', ''abc'')] (sconst 0))
             \<lparr>snake := [\<lparr>px = 1, py = 1\<rparr>], food := \<lparr>px = 2, py = 1\<rparr>,
              direction := \<lparr>px = 1, py = 0\<rparr>, gameRunning := True\<rparr>;
       h = \<lparr>px = 1, py = 1\<rparr>
   in gameRunning s \<and> \<not> gameOver s \<and> snake s = [h]
      \<and> \<not> hitsWall (newHead h (direction s)) \<and> newHead h (direction s) \<notin> set (snake s)
      \<and> newHead h (direction s) = food s
      \<and> \<not> occupies (snake s) (randomCell (sdrop (2 * 0) (mathRandom s)))
      \<and> highScore s = Num 20 \<and> 20 < score s + 10
      \<and> (\<exists>s'. moveSnake s = Some s' \<and> score s' = 30
             \<and> localStorage s' = [(''snakeHighScore'', ''30''), (''snakeHighScore'', ''20'')]
             \<and> highScore s' = Num 30)
      \<and> gameRunning w \<and> \<not> gameOver w \<and> snake w = [h]
      \<and> \<not> hitsWall (newHead h (direction w)) \<and> newHead h (direction w) \<notin> set (snake w)
      \<and> newHead h (direction w) = food w
      \<and> \<not> occupies (snake w) (randomCell (sdrop (2 * 0) (mathRandom w)))
      \<and> highScore w = Num 20 \<and> score w + 10 \<le> 20
      \<and> (\<exists>s'. moveSnake w = Some s' \<and> score s' = 20
             \<and> localStorage s' = [(''snakeHighScore'', ''20'')] \<and> highScore s' = Num 20)
      \<and> gameRunning u \<and> \<not> gameOver u \<and> snake u = [h]
      \<and> \<not> hitsWall (newHead h (direction u)) \<and> newHead h (direction u) \<notin> set (snake u)
      \<and> newHead h (direction u) = food u
      \<and> \<not> occupies (snake u) (randomCell (sdrop (2 * 0) (mathRandom u)))
      \<and> highScore u = NaN
      \<and> (\<exists>s'. moveSnake u = Some s' \<and> score s' = 10
             \<and> localStorage s' = [(''snakeHighScore'', ''abc'')] \<and> highScore s' = NaN)"
proof -
  have "gameRunning s \<and> \<not> gameOver s \<and> snake s = [h]
      \<and> \<not> hitsWall (newHead h (direction s)) \<and> newHead h (direction s) \<notin> set (snake s)
      \<and> newHead h (direction s) = food s
      \<and> \<not> occupies (snake s) (randomCell (sdrop (2 * 0) (mathRandom s)))
      \<and> highScore s = Num 20 \<and> 20 < score s + 10
      \<and> (\<exists>s'. moveSnake s = Some s' \<and> score s' = 30
             \<and> localStorage s' = [(''snakeHighScore'', ''30''), (''snakeHighScore'', ''20'')]
             \<and> highScore s' = Num 30)
      \<and> gameRunning w \<and> \<not> gameOver w \<and> snake w = [h]
      \<and> \<not> hitsWall (newHead h (direction w)) \<and> newHead h (direction w) \<notin> set (snake w)
      \<and> newHead h (direction w) = food w
      \<and> \<not> occupies (snake w) (randomCell (sdrop (2 * 0) (mathRandom w)))
      \<and> highScore w = Num 20 \<and> score w + 10 \<le> 20
      \<and> (\<exists>s'. moveSnake w = Some s' \<and> score s' = 20
             \<and> localStorage s' = [(''snakeHighScore'', ''20'')] \<and> highScore s' = Num 20)
      \<and> gameRunning u \<and> \<not> gameOver u \<and> snake u = [h]
      \<and> \<not> hitsWall (newHead h (direction u)) \<and> newHead h (direction u) \<notin> set (snake u)
      \<and> newHead h (direction u) = food u
      \<and> \<not> occupies (snake u) (randomCell (sdrop (2 * 0) (mathRandom u)))
      \<and> highScore u = NaN
      \<and> (\<exists>s'. moveSnake u = Some s' \<and> score s' = 10
             \<and> localStorage s' = [(''snakeHighScore'', ''abc'')] \<and> highScore s' = NaN)"
    if s: "s = (initialState [(''snakeHighScore'', ''20'')] (sconst 0))
             \<lparr>snake := [\<lparr>px = 1, py = 1\<rparr>], food := \<lparr>px = 2, py = 1\<rparr>,
              direction := \<lparr>px = 1, py = 0\<rparr>, gameRunning := True, score := 20\<rparr>"
      and w: "w = (initialState [(''snakeHighScore'', ''20'')] (sconst 0))
             \<lparr>snake := [\<lparr>px = 1, py = 1\<rparr>], food := \<lparr>px = 2, py = 1\<rparr>,
              direction := \<lparr>px = 1, py = 0\<rparr>, gameRunning := True, score := 10\<rparr>"
      and u: "u = (initialState [(''snakeHighScore'', ''abc'')] (sconst 0))
             \<lparr>snake := [\<lparr>px = 1, py = 1\<rparr>], food := \<lparr>px = 2, py = 1\<rparr>,
              direction := \<lparr>px = 1, py = 0\<rparr>, gameRunning := True\<rparr>"
      and h: "h = \<lparr>px = 1, py = 1\<rparr>"
    for s w u h
  proof -
    have twenty: "toDouble 20 = 20"
      using toDouble_of_int [of 20] by simp
    have load: "loadHighScore [(''snakeHighScore'', ''20'')] = Num 20"
      by (simp add: loadHighScore_def getItem_def parseInt_def stripSign_def stripPrefix_def
          isWhiteSpace_def isRadixDigit_def digitValue_def radixValue_def twenty)
    have bad: "loadHighScore [(''snakeHighScore'', ''abc'')] = NaN"
      by (simp add: loadHighScore_def getItem_def parseInt_def stripSign_def stripPrefix_def
          isWhiteSpace_def isRadixDigit_def digitValue_def)
    have str: "toString 30 = ''30''"
      by (simp add: toString_def natToString.simps digitChar_def)
    have fs: "gameRunning s" "\<not> gameOver s" "snake s = [h]" "score s = 20"
      "localStorage s = [(''snakeHighScore'', ''20'')]" "highScore s = Num 20"
      by (simp_all add: s h initialState_def load)
    have fw: "gameRunning w" "\<not> gameOver w" "snake w = [h]" "score w = 10"
      "localStorage w = [(''snakeHighScore'', ''20'')]" "highScore w = Num 20"
      by (simp_all add: w h initialState_def load)
    have fu: "gameRunning u" "\<not> gameOver u" "snake u = [h]" "score u = 0"
      "localStorage u = [(''snakeHighScore'', ''abc'')]" "highScore u = NaN"
      by (simp_all add: u h initialState_def bad)
    have gs: "\<not> hitsWall (newHead h (direction s))" "newHead h (direction s) \<notin> set (snake s)"
      "newHead h (direction s) = food s"
      "\<not> occupies (snake s) (randomCell (sdrop (2 * 0) (mathRandom s)))"
      by (simp_all add: s h initialState_def newHead_def hitsWall_def GRID_SIZE_def
          occupies_def randomCell_def toDouble_zero)
    have gw: "\<not> hitsWall (newHead h (direction w))" "newHead h (direction w) \<notin> set (snake w)"
      "newHead h (direction w) = food w"
      "\<not> occupies (snake w) (randomCell (sdrop (2 * 0) (mathRandom w)))"
      by (simp_all add: w h initialState_def newHead_def hitsWall_def GRID_SIZE_def
          occupies_def randomCell_def toDouble_zero)
    have gu: "\<not> hitsWall (newHead h (direction u))" "newHead h (direction u) \<notin> set (snake u)"
      "newHead h (direction u) = food u"
      "\<not> occupies (snake u) (randomCell (sdrop (2 * 0) (mathRandom u)))"
      by (simp_all add: u h initialState_def newHead_def hitsWall_def GRID_SIZE_def
          occupies_def randomCell_def toDouble_zero)
    have cmp: "20 < score s + 10" "score w + 10 \<le> 20"
      by (simp_all add: fs(4) fw(4))
    note T = high_score_written_once_when_beaten
      [where s = s and h = h and t = "[]" and k = 0 and b = 20
         and w = w and hw = h and tw = "[]" and kw = 0 and c = 20
         and u = u and hu = h and tu = "[]" and ku = 0]
    from T fs(1-3,6) gs cmp(1)
    have "\<exists>s'. moveSnake s = Some s' \<and> score s' = score s + 10
            \<and> localStorage s' = (''snakeHighScore'', toString (score s + 10)) # localStorage s
            \<and> highScore s' = Num (score s + 10)"
      by blast
    then have c1: "\<exists>s'. moveSnake s = Some s' \<and> score s' = 30
             \<and> localStorage s' = [(''snakeHighScore'', ''30''), (''snakeHighScore'', ''20'')]
             \<and> highScore s' = Num 30"
      by (simp add: fs(4,5) str)
    from T fw(1-3,6) gw cmp(2)
    have "\<exists>s'. moveSnake w = Some s' \<and> score s' = score w + 10
            \<and> localStorage s' = localStorage w \<and> highScore s' = Num 20"
      by blast
    then have c2: "\<exists>s'. moveSnake w = Some s' \<and> score s' = 20
             \<and> localStorage s' = [(''snakeHighScore'', ''20'')] \<and> highScore s' = Num 20"
      by (simp add: fw(4,5))
    from T fu(1-3,6) gu
    have "\<exists>s'. moveSnake u = Some s' \<and> score s' = score u + 10
            \<and> localStorage s' = localStorage u \<and> highScore s' = NaN"
      by blast
    then have c3: "\<exists>s'. moveSnake u = Some s' \<and> score s' = 10
             \<and> localStorage s' = [(''snakeHighScore'', ''abc'')] \<and> highScore s' = NaN"
      by (simp add: fu(4,5))
    from fs(1-3,6) gs cmp fw(1-3,6) gw fu(1-3,6) gu c1 c2 c3 show ?thesis
      by blast
  qed
  from this [OF refl refl refl refl] show ?thesis
    unfolding Let_def .
qed

subsection \<open>C8: a tick keeps the cells of the snake distinct\<close>

text \<open>
  C8. When the snake has no duplicate cell, the snake of every state a tick returns has
  none either: the self check refuses a new head that is a cell of the snake, so the list
  with the new head in front, with or without its last cell, is distinct (and a tick that
  ends the game keeps the list). The tick does return whenever some coming pair of random
  values gives a cell off the snake.
\<close>

theorem tick_keeps_snake_distinct:
  "(distinct (snake s) \<and> moveSnake s = Some s' \<longrightarrow> distinct (snake s'))
   \<and> (distinct (snake s) \<and> \<not> occupies (snake s) (randomCell (sdrop (2 * k) (mathRandom s)))
      \<longrightarrow> (\<exists>s''. moveSnake s = Some s'' \<and> distinct (snake s'')))"
proof (intro conjI impI)
  assume "distinct (snake s) \<and> moveSnake s = Some s'"
  then show "distinct (snake s')" by (blast intro: moveSnake_distinct)
next
  assume a: "distinct (snake s) \<and> \<not> occupies (snake s) (randomCell (sdrop (2 * k) (mathRandom s)))"
  then obtain s'' where "moveSnake s = Some s''" using moveSnake_returns by blast
  with a show "\<exists>s''. moveSnake s = Some s'' \<and> distinct (snake s'')"
    by (blast intro: moveSnake_distinct)
qed

theorem tick_keeps_snake_distinct_witness:
  "let s = (initialState [] (sconst 0))
             \<lparr>snake := [\<lparr>px = 5, py = 8\<rparr>, \<lparr>px = 5, py = 9\<rparr>, \<lparr>px = 6, py = 9\<rparr>],
              gameRunning := True\<rparr>;
       s' = s\<lparr>snake := [\<lparr>px = 5, py = 7\<rparr>, \<lparr>px = 5, py = 8\<rparr>, \<lparr>px = 5, py = 9\<rparr>]\<rparr>
   in distinct (snake s) \<and> moveSnake s = Some s' \<and> distinct (snake s')
      \<and> \<not> occupies (snake s) (randomCell (sdrop (2 * 0) (mathRandom s)))
      \<and> (\<exists>s''. moveSnake s = Some s'' \<and> distinct (snake s''))"
proof -
  have "distinct (snake s) \<and> moveSnake s = Some s' \<and> distinct (snake s')
      \<and> \<not> occupies (snake s) (randomCell (sdrop (2 * 0) (mathRandom s)))
      \<and> (\<exists>s''. moveSnake s = Some s'' \<and> distinct (snake s''))"
    if s: "s = (initialState [] (sconst 0))
             \<lparr>snake := [\<lparr>px = 5, py = 8\<rparr>, \<lparr>px = 5, py = 9\<rparr>, \<lparr>px = 6, py = 9\<rparr>],
              gameRunning := True\<rparr>"
      and s': "s' = s\<lparr>snake := [\<lparr>px = 5, py = 7\<rparr>, \<lparr>px = 5, py = 8\<rparr>, \<lparr>px = 5, py = 9\<rparr>]\<rparr>"
    for s s'
  proof -
    have d: "distinct (snake s)"
      by (simp add: s)
    have m: "moveSnake s = Some s'"
      by (simp add: s s' initialState_def moveSnake_def newHead_def hitsWall_def GRID_SIZE_def
          occupies_def Let_def INITIAL_DIRECTION_def INITIAL_FOOD_def)
    have fair: "\<not> occupies (snake s) (randomCell (sdrop (2 * 0) (mathRandom s)))"
      by (simp add: s initialState_def occupies_def randomCell_def toDouble_zero)
    note T = tick_keeps_snake_distinct [where s = s and s' = s' and k = 0]
    from T d m have c1: "distinct (snake s')" by blast
    from T d fair have c2: "\<exists>s''. moveSnake s = Some s'' \<and> distinct (snake s'')" by blast
    from d m fair c1 c2 show ?thesis by blast
  qed
  from this [OF refl refl] show ?thesis
    unfolding Let_def .
qed

subsection \<open>C9: a game that is over is not running\<close>

text \<open>
  C9. \<open>gameOver\<close> implies not \<open>gameRunning\<close> in the initial state, and every operation (a
  tick, start, pause, reset, a key press) that is applied to a state where the implication
  holds returns a state where it holds; so it holds after every run of operations from the
  initial state. The tick sets \<open>gameRunning\<close> to false wherever it sets \<open>gameOver\<close> to
  true, and start applied to a game that is over clears \<open>gameOver\<close> as it sets
  \<open>gameRunning\<close>.
\<close>

theorem over_implies_not_running:
  "(gameOver (initialState store rs) \<longrightarrow> \<not> gameRunning (initialState store rs))
   \<and> ((gameOver s \<longrightarrow> \<not> gameRunning s) \<and> step op s = Some s'
        \<longrightarrow> (gameOver s' \<longrightarrow> \<not> gameRunning s'))
   \<and> (run ops (initialState store rs) = Some u \<longrightarrow> (gameOver u \<longrightarrow> \<not> gameRunning u))
   \<and> (gameOver g \<longrightarrow> \<not> gameOver (startGame g) \<and> gameRunning (startGame g))"
proof (intro conjI impI)
  assume "gameOver (initialState store rs)"
  then show "\<not> gameRunning (initialState store rs)" by (simp add: initialState_def)
next
  assume "(gameOver s \<longrightarrow> \<not> gameRunning s) \<and> step op s = Some s'" and "gameOver s'"
  then show "\<not> gameRunning s'" using step_flags [of s op s'] by blast
next
  assume r: "run ops (initialState store rs) = Some u" and "gameOver u"
  have "gameOver (initialState store rs) \<longrightarrow> \<not> gameRunning (initialState store rs)"
    by (simp add: initialState_def)
  from run_flags [OF this r] \<open>gameOver u\<close> show "\<not> gameRunning u" by simp
next
  assume "gameOver g"
  then show "\<not> gameOver (startGame g)" by (simp add: startGame_def resetGame_def)
next
  assume "gameOver g"
  then show "gameRunning (startGame g)" by (simp add: startGame_def resetGame_def)
qed

theorem over_implies_not_running_witness:
  "let w = (initialState [] (sconst 0))\<lparr>snake := [\<lparr>px = 10, py = 0\<rparr>], gameRunning := True\<rparr>;
       z = endGame ''You hit the wall!'' w
   in \<not> gameOver w \<and> step Tick w = Some z \<and> gameOver z \<and> \<not> gameRunning z
      \<and> run [Start, Tick, Tick, Tick, Tick, Tick, Tick, Tick, Tick, Tick, Tick, Tick]
            (initialState [] (sconst 0)) = Some z
      \<and> \<not> gameOver (startGame z) \<and> gameRunning (startGame z)"
proof -
  have "\<not> gameOver w \<and> step Tick w = Some z \<and> gameOver z \<and> \<not> gameRunning z
      \<and> run [Start, Tick, Tick, Tick, Tick, Tick, Tick, Tick, Tick, Tick, Tick, Tick]
            (initialState [] (sconst 0)) = Some z
      \<and> \<not> gameOver (startGame z) \<and> gameRunning (startGame z)"
    if w: "w = (initialState [] (sconst 0))\<lparr>snake := [\<lparr>px = 10, py = 0\<rparr>], gameRunning := True\<rparr>"
      and z: "z = endGame ''You hit the wall!'' w"
    for w z
  proof -
    have live: "\<not> gameOver w"
      by (simp add: w initialState_def)
    have tick: "step Tick w = Some z"
      by (simp add: w z initialState_def moveSnake_def newHead_def hitsWall_def GRID_SIZE_def
          INITIAL_DIRECTION_def Let_def)
    have over: "gameOver z"
      by (simp add: z endGame_fields)
    have all: "run [Start, Tick, Tick, Tick, Tick, Tick, Tick, Tick, Tick, Tick, Tick, Tick]
            (initialState [] (sconst 0)) = Some z"
      by (simp add: w z initialState_def startGame_def INITIAL_SNAKE_def INITIAL_FOOD_def
          INITIAL_DIRECTION_def moveSnake_def newHead_def hitsWall_def GRID_SIZE_def occupies_def
          Let_def endGame_def toast_def)
    note T = over_implies_not_running
      [where store = "[]" and rs = "sconst 0" and s = w and op = Tick and s' = z
         and ops = "[Start, Tick, Tick, Tick, Tick, Tick, Tick, Tick, Tick, Tick, Tick, Tick]"
         and u = z and g = z]
    from T live tick over have c1: "\<not> gameRunning z" by blast
    from T over have c2: "\<not> gameOver (startGame z)" "gameRunning (startGame z)" by blast+
    from live tick over all c1 c2 show ?thesis by blast
  qed
  from this [OF refl refl] show ?thesis
    unfolding Let_def .
qed

subsection \<open>C10: reset and start keep the high score; no operation lowers it\<close>

text \<open>
  C10. \<open>resetGame\<close> puts the snake, the food, the direction, the score, \<open>gameOver\<close> and
  \<open>gameRunning\<close> back to their initial values and keeps \<open>highScore\<close> (and the store).
  \<open>startGame\<close>, with the reset it performs when the game is over, keeps \<open>highScore\<close> too.
  After any run of operations \<open>highScore\<close> is what it was or a strictly greater integer:
  no operation lowers it.
\<close>

theorem reset_and_start_keep_high_score:
  "snake (resetGame s) = INITIAL_SNAKE \<and> food (resetGame s) = INITIAL_FOOD
   \<and> direction (resetGame s) = INITIAL_DIRECTION \<and> score (resetGame s) = 0
   \<and> \<not> gameOver (resetGame s) \<and> \<not> gameRunning (resetGame s)
   \<and> highScore (resetGame s) = highScore s
   \<and> localStorage (resetGame s) = localStorage s
   \<and> highScore (startGame s) = highScore s
   \<and> (run ops s = Some s' \<longrightarrow>
        highScore s' = highScore s
        \<or> (\<exists>a b. highScore s = Num a \<and> highScore s' = Num b \<and> a < b))"
proof (intro conjI impI)
  assume "run ops s = Some s'"
  then show "highScore s' = highScore s \<or> (\<exists>a b. highScore s = Num a \<and> highScore s' = Num b \<and> a < b)"
    by (rule run_up)
qed (simp_all add: resetGame_def startGame_def)

theorem reset_and_start_keep_high_score_witness:
  "let s = (initialState [(''snakeHighScore'', ''20'')] (sconst 0))
             \<lparr>snake := [\<lparr>px = 1, py = 1\<rparr>], food := \<lparr>px = 2, py = 1\<rparr>,
              direction := \<lparr>px = 1, py = 0\<rparr>, gameRunning := True, score := 20\<rparr>;
       s' = (initialState [(''snakeHighScore'', ''20'')] (sconst 0))
             \<lparr>gameRunning := True, highScore := Num 30,
              localStorage := [(''snakeHighScore'', ''30''), (''snakeHighScore'', ''20'')],
              toasts := [\<lparr>title = ''Yummy!'', description = ''+10 points'', variant = Default\<rparr>,
                         \<lparr>title = ''New High Score!'', description = ''Amazing! New record: 30'', variant = Default\<rparr>]\<rparr>
   in run [Tick, Reset, Start] s = Some s'
      \<and> highScore s = Num 20 \<and> highScore s' = Num 30
      \<and> (highScore s' = highScore s
          \<or> (\<exists>a b. highScore s = Num a \<and> highScore s' = Num b \<and> a < b))
      \<and> highScore (resetGame s) = Num 20 \<and> highScore (startGame s) = Num 20
      \<and> snake (resetGame s) = INITIAL_SNAKE \<and> score (resetGame s) = 0"
proof -
  have "run [Tick, Reset, Start] s = Some s'
      \<and> highScore s = Num 20 \<and> highScore s' = Num 30
      \<and> (highScore s' = highScore s
          \<or> (\<exists>a b. highScore s = Num a \<and> highScore s' = Num b \<and> a < b))
      \<and> highScore (resetGame s) = Num 20 \<and> highScore (startGame s) = Num 20
      \<and> snake (resetGame s) = INITIAL_SNAKE \<and> score (resetGame s) = 0"
    if s: "s = (initialState [(''snakeHighScore'', ''20'')] (sconst 0))
             \<lparr>snake := [\<lparr>px = 1, py = 1\<rparr>], food := \<lparr>px = 2, py = 1\<rparr>,
              direction := \<lparr>px = 1, py = 0\<rparr>, gameRunning := True, score := 20\<rparr>"
      and s': "s' = (initialState [(''snakeHighScore'', ''20'')] (sconst 0))
             \<lparr>gameRunning := True, highScore := Num 30,
              localStorage := [(''snakeHighScore'', ''30''), (''snakeHighScore'', ''20'')],
              toasts := [\<lparr>title = ''Yummy!'', description = ''+10 points'', variant = Default\<rparr>,
                         \<lparr>title = ''New High Score!'', description = ''Amazing! New record: 30'', variant = Default\<rparr>]\<rparr>"
    for s s'
  proof -
    have twenty: "toDouble 20 = 20"
      using toDouble_of_int [of 20] by simp
    have load: "loadHighScore [(''snakeHighScore'', ''20'')] = Num 20"
      by (simp add: loadHighScore_def getItem_def parseInt_def stripSign_def stripPrefix_def
          isWhiteSpace_def isRadixDigit_def digitValue_def radixValue_def twenty)
    have str: "toString 30 = ''30''"
      by (simp add: toString_def natToString.simps digitChar_def)
    have gen: "generateFood [\<lparr>px = 1, py = 1\<rparr>] (sconst 0) = Some (\<lparr>px = 0, py = 0\<rparr>, sconst 0)"
      by (subst generateFood.simps) (simp add: randomCell_def occupies_def toDouble_zero)
    have r: "run [Tick, Reset, Start] s = Some s'"
      by (simp add: s s' initialState_def load gen str moveSnake_def newHead_def hitsWall_def
          GRID_SIZE_def occupies_def Let_def addScore_def toast_def setItem_def
          resetGame_def startGame_def)
    have hs: "highScore s = Num 20" "highScore s' = Num 30"
      by (simp_all add: s s' initialState_def load)
    note T = reset_and_start_keep_high_score
      [where s = s and ops = "[Tick, Reset, Start]" and s' = s']
    from T hs(1) have c: "highScore (resetGame s) = Num 20" "highScore (startGame s) = Num 20"
      "snake (resetGame s) = INITIAL_SNAKE" "score (resetGame s) = 0"
      by simp_all
    from T r have up: "highScore s' = highScore s
          \<or> (\<exists>a b. highScore s = Num a \<and> highScore s' = Num b \<and> a < b)"
      by blast
    from r hs c up show ?thesis by blast
  qed
  from this [OF refl refl] show ?thesis
    unfolding Let_def .
qed

end
